theory Spec2Isabelle
  imports Main "HOL-Library.AList" "HOL-Library.List_Lexorder"
begin

section \<open>Python values used by \<^verbatim>\<open>lunar.py\<close>\<close>

text \<open>
  A Python \<^verbatim>\<open>str\<close> is a sequence of Unicode code points, so it is modelled as a list
  of natural numbers (one per code point); comparison of such lists (\<open>List_Lexorder\<close>)
  is Python's string comparison. \<open>ascii\<close> writes the ASCII part of a literal
  readably; every other character is given by its code point.
\<close>

type_synonym pystr = "nat list"

definition ascii :: "string \<Rightarrow> pystr" where
  "ascii s = map of_char s"

text \<open>
  \<^verbatim>\<open>str.isspace\<close> per character, as used by \<^verbatim>\<open>str.strip()\<close>: the ASCII
  blanks and separators and the Unicode space characters.
\<close>

definition str_isspace :: "nat \<Rightarrow> bool" where
  "str_isspace c \<longleftrightarrow>
     (0x09 \<le> c \<and> c \<le> 0x0D) \<or> (0x1C \<le> c \<and> c \<le> 0x20) \<or> c = 0x85 \<or> c = 0xA0 \<or>
     c = 0x1680 \<or> (0x2000 \<le> c \<and> c \<le> 0x200A) \<or> c = 0x2028 \<or> c = 0x2029 \<or>
     c = 0x202F \<or> c = 0x205F \<or> c = 0x3000"

text \<open>\<^verbatim>\<open>s.strip()\<close>: leading and trailing whitespace removed.\<close>

definition str_strip :: "pystr \<Rightarrow> pystr" where
  "str_strip s = rev (dropWhile str_isspace (rev (dropWhile str_isspace s)))"

text \<open>
  \<^verbatim>\<open>s.split(sep)\<close> for a one-character separator: the pieces between the
  separators, empty pieces included; the result is never empty. \<open>cur\<close> holds the
  piece being read, reversed.
\<close>

fun split_from :: "nat \<Rightarrow> pystr \<Rightarrow> pystr \<Rightarrow> pystr list" where
  "split_from sep cur [] = [rev cur]"
| "split_from sep cur (c # cs) =
     (if c = sep then rev cur # split_from sep [] cs else split_from sep (c # cur) cs)"

definition str_split :: "pystr \<Rightarrow> nat \<Rightarrow> pystr list" where
  "str_split s sep = split_from sep [] s"

text \<open>\<^verbatim>\<open>sep.join(xs)\<close>.\<close>

fun str_join :: "pystr \<Rightarrow> pystr list \<Rightarrow> pystr" where
  "str_join sep [] = []"
| "str_join sep [x] = x"
| "str_join sep (x # y # ys) = x @ sep @ str_join sep (y # ys)"

subsection \<open>\<^verbatim>\<open>int(...)\<close> and \<^verbatim>\<open>str(...)\<close> on integers\<close>

text \<open>
  \<^verbatim>\<open>int(s)\<close> on a string reads a base-10 literal: optional surrounding whitespace, an
  optional sign, then decimal digits, where single underscores may stand between digits.
  The digits are the Unicode decimal digits (category Nd), which come in runs of ten
  starting at the code points below (Unicode 14, the table of CPython 3.11). The
  whitespace \<^verbatim>\<open>int\<close> skips is that of \<^verbatim>\<open>str.isspace\<close> without the four ASCII
  separators \<^verbatim>\<open>0x1C\<close> to \<^verbatim>\<open>0x1F\<close>. Python integers are unbounded; the optional limit
  of the interpreter on the number of digits converted is not modelled.
\<close>

definition decimal_zeros :: "nat list" where
  "decimal_zeros =
    [0x30, 0x660, 0x6F0, 0x7C0, 0x966, 0x9E6, 0xA66, 0xAE6, 0xB66, 0xBE6, 0xC66, 0xCE6,
     0xD66, 0xDE6, 0xE50, 0xED0, 0xF20, 0x1040, 0x1090, 0x17E0, 0x1810, 0x1946, 0x19D0,
     0x1A80, 0x1A90, 0x1B50, 0x1BB0, 0x1C40, 0x1C50, 0xA620, 0xA8D0, 0xA900, 0xA9D0,
     0xA9F0, 0xAA50, 0xABF0, 0xFF10, 0x104A0, 0x10D30, 0x11066, 0x110F0, 0x11136,
     0x111D0, 0x112F0, 0x11450, 0x114D0, 0x11650, 0x116C0, 0x11730, 0x118E0, 0x11950,
     0x11C50, 0x11D50, 0x11DA0, 0x16A60, 0x16AC0, 0x16B50, 0x1D7CE, 0x1D7D8, 0x1D7E2,
     0x1D7EC, 0x1D7F6, 0x1E140, 0x1E2F0, 0x1E950, 0x1FBF0]"

definition decimal :: "nat \<Rightarrow> nat option" where
  "decimal c = map_option (\<lambda>z. c - z) (find (\<lambda>z. z \<le> c \<and> c < z + 10) decimal_zeros)"

definition int_isspace :: "nat \<Rightarrow> bool" where
  "int_isspace c \<longleftrightarrow> str_isspace c \<and> \<not> (0x1C \<le> c \<and> c \<le> 0x1F)"

text \<open>
  \<open>digits_value acc cs\<close> reads what follows a digit: digits, each optionally preceded
  by one underscore, up to the end of the text.
\<close>

fun digits_value :: "nat \<Rightarrow> pystr \<Rightarrow> nat option" where
  "digits_value acc [] = Some acc"
| "digits_value acc (c # cs) =
     (if c = 0x5F then
        (case cs of
           [] \<Rightarrow> None
         | d # ds \<Rightarrow> (case decimal d of None \<Rightarrow> None
                     | Some v \<Rightarrow> digits_value (10 * acc + v) ds))
      else
        (case decimal c of None \<Rightarrow> None
         | Some v \<Rightarrow> digits_value (10 * acc + v) cs))"

definition unsigned_value :: "pystr \<Rightarrow> nat option" where
  "unsigned_value body =
     (case body of
        [] \<Rightarrow> None
      | d # ds \<Rightarrow> (case decimal d of None \<Rightarrow> None | Some v \<Rightarrow> digits_value v ds))"

definition int_of_str :: "pystr \<Rightarrow> int option" where
  "int_of_str s =
     (let t = rev (dropWhile int_isspace (rev (dropWhile int_isspace s)))
      in case t of
           [] \<Rightarrow> None
         | c # r \<Rightarrow>
             if c = 0x2D then map_option (\<lambda>n. - int n) (unsigned_value r)
             else if c = 0x2B then map_option int (unsigned_value r)
             else map_option int (unsigned_value t))"

text \<open>\<^verbatim>\<open>str(i)\<close> for an integer: its decimal digits, after a minus sign if negative.\<close>

fun digits_of :: "nat \<Rightarrow> pystr" where
  "digits_of n = (if n < 10 then [0x30 + n] else digits_of (n div 10) @ [0x30 + n mod 10])"

definition str_of_int :: "int \<Rightarrow> pystr" where
  "str_of_int i = (if i < 0 then 0x2D # digits_of (nat (- i)) else digits_of (nat i))"

declare digits_of.simps [simp del]

subsection \<open>Values and exceptions\<close>

text \<open>
  The constructor is annotated \<^verbatim>\<open>int\<close> but converts what it is given with
  \<^verbatim>\<open>int(...)\<close>; the values modelled are integers, strings, floats and \<^verbatim>\<open>None\<close>.
  A finite float is \<open>Finite m e\<close>, standing for \<open>m * 2 ^ e\<close> (every finite double has
  this form); \<^verbatim>\<open>int\<close> on a float needs no more than that value.
\<close>

datatype pyfloat = Finite int int | Infinity bool | NaN

datatype pyval = PyNone | PyInt int | PyFloat pyfloat | PyStr pystr

datatype exc_class = TypeError | ValueError | OverflowError | IndexError | KeyError

text \<open>
  An exception is its class and its message. The message is \<open>Some text\<close> for the
  exceptions raised by the \<^verbatim>\<open>raise\<close> statements of the module, and \<open>None\<close> for the
  exceptions raised by the interpreter, whose wording is the interpreter's.
\<close>

datatype exc = Exc exc_class "pystr option"

text \<open>\<^verbatim>\<open>type(v).__name__\<close>.\<close>

fun type_name :: "pyval \<Rightarrow> pystr" where
  "type_name PyNone = ascii ''NoneType''"
| "type_name (PyInt i) = ascii ''int''"
| "type_name (PyFloat f) = ascii ''float''"
| "type_name (PyStr s) = ascii ''str''"

text \<open>\<^verbatim>\<open>int(f)\<close> on a finite float truncates toward zero.\<close>

definition float_trunc :: "int \<Rightarrow> int \<Rightarrow> int" where
  "float_trunc m e =
     (if 0 \<le> e then m * 2 ^ nat e
      else if 0 \<le> m then m div 2 ^ nat (- e)
      else - ((- m) div 2 ^ nat (- e)))"

text \<open>
  \<^verbatim>\<open>int(v)\<close>: the integer, or the class of the exception raised
  (\<^verbatim>\<open>ValueError\<close> for a string that is no literal and for NaN, \<^verbatim>\<open>OverflowError\<close>
  for an infinity, \<^verbatim>\<open>TypeError\<close> for \<^verbatim>\<open>None\<close>).
\<close>

fun py_int :: "pyval \<Rightarrow> exc_class + int" where
  "py_int (PyInt i) = Inr i"
| "py_int (PyStr s) = (case int_of_str s of None \<Rightarrow> Inl ValueError | Some i \<Rightarrow> Inr i)"
| "py_int (PyFloat (Finite m e)) = Inr (float_trunc m e)"
| "py_int (PyFloat NaN) = Inl ValueError"
| "py_int (PyFloat (Infinity negative)) = Inl OverflowError"
| "py_int PyNone = Inl TypeError"

section \<open>The class \<^verbatim>\<open>LunarYear\<close>\<close>

subsection \<open>Class attributes\<close>

definition SUPPORTED_LANGUAGES :: "pystr set" where
  "SUPPORTED_LANGUAGES = {ascii ''chi'', ascii ''kor'', ascii ''jap'', ascii ''viet'', ascii ''eng''}"

definition MIN_YEAR :: int where
  "MIN_YEAR = 4"

definition MAX_YEAR :: int where
  "MAX_YEAR = 9999"

text \<open>
  The table is a dictionary from the position in the cycle to a dictionary from the
  language code to the list \<^verbatim>\<open>[name, hanja]\<close>. Dictionaries are association lists in
  insertion order; \<^verbatim>\<open>d[k] = v\<close> is \<open>AList.update\<close> and \<^verbatim>\<open>d[k]\<close> is \<open>map_of\<close>.
\<close>

type_synonym entry = "(pystr \<times> pystr list) list"

type_synonym lunar_table = "(int \<times> entry) list"

text \<open>
  The state of the class: the attribute \<^verbatim>\<open>_TABLE\<close>, \<^verbatim>\<open>None\<close> until the first
  instance is made. An instance holds its two attributes.
\<close>

record cls =
  TABLE :: "lunar_table option"

record LunarYear =
  gregorian_year :: int
  year_in_cycle :: int

definition cls_initial :: cls where
  "cls_initial = \<lparr>TABLE = None\<rparr>"

subsection \<open>\<^verbatim>\<open>_get_year\<close>: the table\<close>

text \<open>
  The literal of \<^verbatim>\<open>_get_year\<close> holds sixty lines. In the source each line is indented
  by eight blanks and ended by a newline, and eight more blanks stand before the closing
  quotes (the backslash after the opening quotes removes the first newline).
  \<open>table_lines\<close> lists the text of each line after its indentation, tabs as \<open>9\<close>;
  \<open>table\<close> is the literal.
\<close>

definition table_lines :: "pystr list" where
  "table_lines =
    [ascii ''1'' @ [9, 0x7532, 0x5B50, 9] @ ascii ''ji'' @ [0x1CE] @ ascii ''-z'' @ [0x1D0, 9] @
       ascii ''gapja '' @ [0xAC11, 0xC790, 9] @ ascii ''k'' @ [0x14D] @
       ascii ''shi(kasshi)/kinoe-ne'' @ [9] @ ascii ''Gi'' @ [0xE1] @ ascii ''p T'' @ [0xFD, 9] @
       ascii ''Yang Wood Rat'' @ [9] @ ascii ''4'' @ [9] @ ascii ''57'' @ [9] @ ascii ''1984'',
     ascii ''2'' @ [9, 0x4E59, 0x4E11, 9] @ ascii ''y'' @ [0x1D0] @ ascii ''-ch'' @ [0x1D2] @
       ascii ''u'' @ [9] @ ascii ''eulchuk '' @ [0xC744, 0xCD95, 9] @ ascii ''itch'' @ [0x16B] @
       ascii ''/kinoto-ushi'' @ [9, 0x1EA4] @ ascii ''t S'' @ [0x1EED] @ ascii ''u'' @ [9] @
       ascii ''Yin Wood Ox'' @ [9] @ ascii ''5'' @ [9] @ ascii ''56'' @ [9] @ ascii ''1985'',
     ascii ''3'' @ [9, 0x4E19, 0x5BC5, 9] @ ascii ''b'' @ [0x1D0] @ ascii ''ng-y'' @ [0xED] @
       ascii ''n'' @ [9] @ ascii ''byeongin '' @ [0xBCD1, 0xC778, 9] @ ascii ''heiin/hinoe-tora'' @
       [9] @ ascii ''B'' @ [0xED] @ ascii ''nh D'' @ [0x1EA7] @ ascii ''n'' @ [9] @
       ascii ''Yang Fire Tiger'' @ [9] @ ascii ''6'' @ [9] @ ascii ''55'' @ [9] @ ascii ''1986'',
     ascii ''4'' @ [9, 0x4E01, 0x536F, 9] @ ascii ''d'' @ [0x12B] @ ascii ''ng-m'' @ [0x1CE] @
       ascii ''o'' @ [9] @ ascii ''jeongmyo '' @ [0xC815, 0xBB18, 9] @ ascii ''teib'' @ [0x14D] @
       ascii ''/hinoto-u'' @ [9, 0x110] @ ascii ''inh M'' @ [0xE3] @ ascii ''o'' @ [9] @
       ascii ''Yin Fire Rabbit'' @ [9] @ ascii ''7'' @ [9] @ ascii ''54'' @ [9] @ ascii ''1987'',
     ascii ''5'' @ [9, 0x620A, 0x8FB0, 9] @ ascii ''w'' @ [0xF9] @ ascii ''-ch'' @ [0xE9] @
       ascii ''n'' @ [9] @ ascii ''mujin '' @ [0xBB34, 0xC9C4, 9] @ ascii ''boshin/tsuchinoe-tatsu'' @
       [9] @ ascii ''M'' @ [0x1EAD] @ ascii ''u Th'' @ [0xEC] @ ascii ''n'' @ [9] @
       ascii ''Yang Earth Dragon'' @ [9] @ ascii ''8'' @ [9] @ ascii ''53'' @ [9] @ ascii ''1988'',
     ascii ''6'' @ [9, 0x5DF1, 0x5DF3, 9] @ ascii ''j'' @ [0x1D0] @ ascii ''-s'' @ [0xEC, 9] @
       ascii ''gisa '' @ [0xAE30, 0xC0AC, 9] @ ascii ''kishi/tsuchinoto-mi'' @ [9] @ ascii ''K'' @
       [0x1EF7] @ ascii '' T'' @ [0x1EF5, 9] @ ascii ''Yin Earth Snake'' @ [9] @ ascii ''9'' @ [9] @
       ascii ''52'' @ [9] @ ascii ''1989'',
     ascii ''7'' @ [9, 0x5E9A, 0x5348, 9] @ ascii ''g'' @ [0x113] @ ascii ''ng-w'' @ [0x1D4, 9] @
       ascii ''gyeongo '' @ [0xACBD, 0xC624, 9] @ ascii ''k'' @ [0x14D] @ ascii ''go/kanoe-uma'' @
       [9] @ ascii ''Canh Ng'' @ [0x1ECD, 9] @ ascii ''Yang Metal Horse'' @ [9] @ ascii ''10'' @ [9] @
       ascii ''51'' @ [9] @ ascii ''1990'',
     ascii ''8'' @ [9, 0x8F9B, 0x672A, 9] @ ascii ''x'' @ [0x12B] @ ascii ''n-w'' @ [0xE8] @
       ascii ''i'' @ [9] @ ascii ''shinmi '' @ [0xC2E0, 0xBBF8, 9] @ ascii ''shinbi/kanoto-hitsuji'' @
       [9] @ ascii ''T'' @ [0xE2] @ ascii ''n M'' @ [0xF9] @ ascii ''i'' @ [9] @
       ascii ''Yin Metal Goat'' @ [9] @ ascii ''11'' @ [9] @ ascii ''50'' @ [9] @ ascii ''1991'',
     ascii ''9'' @ [9, 0x58EC, 0x7533, 9] @ ascii ''r'' @ [0xE9] @ ascii ''n-sh'' @ [0x113] @
       ascii ''n'' @ [9] @ ascii ''imshin '' @ [0xC784, 0xC2E0, 9] @ ascii ''jinshin/mizunoe-saru'' @
       [9] @ ascii ''Nh'' @ [0xE2] @ ascii ''m Th'' @ [0xE2] @ ascii ''n'' @ [9] @
       ascii ''Yang Water Monkey'' @ [9] @ ascii ''12'' @ [9] @ ascii ''49'' @ [9] @ ascii ''1992'',
     ascii ''10'' @ [9, 0x7678, 0x9149, 9] @ ascii ''gu'' @ [0x1D0] @ ascii ''-y'' @ [0x1D2] @
       ascii ''u'' @ [9] @ ascii ''gyeyu '' @ [0xACC4, 0xC720, 9] @ ascii ''kiy'' @ [0x16B] @
       ascii ''/mizunoto-tori'' @ [9] @ ascii ''Qu'' @ [0xFD] @ ascii '' D'' @ [0x1EAD] @
       ascii ''u'' @ [9] @ ascii ''Yin Water Rooster'' @ [9] @ ascii ''13'' @ [9] @ ascii ''48'' @
       [9] @ ascii ''1993'',
     ascii ''11'' @ [9, 0x7532, 0x620C, 9] @ ascii ''ji'' @ [0x1CE] @ ascii ''-x'' @ [0x16B, 9] @
       ascii ''gapsul '' @ [0xAC11, 0xC220, 9] @ ascii ''k'' @ [0x14D] @ ascii ''jutsu/kinoe-inu'' @
       [9] @ ascii ''Gi'' @ [0xE1] @ ascii ''p Tu'' @ [0x1EA5] @ ascii ''t'' @ [9] @
       ascii ''Yang Wood Dog'' @ [9] @ ascii ''14'' @ [9] @ ascii ''47'' @ [9] @ ascii ''1994'',
     ascii ''12'' @ [9, 0x4E59, 0x4EA5, 9] @ ascii ''y'' @ [0x1D0] @ ascii ''-h'' @ [0xE0] @
       ascii ''i'' @ [9] @ ascii ''eulhae '' @ [0xC744, 0xD574, 9] @ ascii ''itsugai/kinoto-i'' @
       [9, 0xC2] @ ascii ''t H'' @ [0x1EE3] @ ascii ''i'' @ [9] @ ascii ''Yin Wood Pig'' @ [9] @
       ascii ''15'' @ [9] @ ascii ''46'' @ [9] @ ascii ''1995'',
     ascii ''13'' @ [9, 0x4E19, 0x5B50, 9] @ ascii ''b'' @ [0x1D0] @ ascii ''ng-z'' @ [0x1D0, 9] @
       ascii ''byeongja '' @ [0xBCD1, 0xC790, 9] @ ascii ''heishi/hinoe-ne'' @ [9] @ ascii ''B'' @
       [0xED] @ ascii ''nh T'' @ [0xFD, 9] @ ascii ''Yang Fire Rat'' @ [9] @ ascii ''16'' @ [9] @
       ascii ''45'' @ [9] @ ascii ''1996'',
     ascii ''14'' @ [9, 0x4E01, 0x4E11, 9] @ ascii ''d'' @ [0x12B] @ ascii ''ng-ch'' @ [0x1D2] @
       ascii ''u'' @ [9] @ ascii ''jeongchuk '' @ [0xC815, 0xCD95, 9] @ ascii ''teich'' @ [0x16B] @
       ascii ''/hinoto-ushi'' @ [9, 0x110] @ ascii ''inh S'' @ [0x1EED] @ ascii ''u'' @ [9] @
       ascii ''Yin Fire Ox'' @ [9] @ ascii ''17'' @ [9] @ ascii ''44'' @ [9] @ ascii ''1997'',
     ascii ''15'' @ [9, 0x620A, 0x5BC5, 9] @ ascii ''w'' @ [0xF9] @ ascii ''-y'' @ [0xED] @
       ascii ''n'' @ [9] @ ascii ''muin '' @ [0xBB34, 0xC778, 9] @ ascii ''boin/tsuchinoe-tora'' @
       [9] @ ascii ''M'' @ [0x1EAD] @ ascii ''u D'' @ [0x1EA7] @ ascii ''n'' @ [9] @
       ascii ''Yang Earth Tiger'' @ [9] @ ascii ''18'' @ [9] @ ascii ''43'' @ [9] @ ascii ''1998'',
     ascii ''16'' @ [9, 0x5DF1, 0x536F, 9] @ ascii ''j'' @ [0x1D0] @ ascii ''-m'' @ [0x1CE] @
       ascii ''o'' @ [9] @ ascii ''gimyo '' @ [0xAE30, 0xBB18, 9] @ ascii ''kib'' @ [0x14D] @
       ascii ''/tsuchinoto-u'' @ [9] @ ascii ''K'' @ [0x1EF7] @ ascii '' M'' @ [0xE3] @ ascii ''o'' @
       [9] @ ascii ''Yin Earth Rabbit'' @ [9] @ ascii ''19'' @ [9] @ ascii ''42'' @ [9] @
       ascii ''1999'',
     ascii ''17'' @ [9, 0x5E9A, 0x8FB0, 9] @ ascii ''g'' @ [0x113] @ ascii ''ng-ch'' @ [0xE9] @
       ascii ''n'' @ [9] @ ascii ''gyeongjin '' @ [0xACBD, 0xC9C4, 9] @ ascii ''k'' @ [0x14D] @
       ascii ''shin/kanoe-tatsu'' @ [9] @ ascii ''Canh Th'' @ [0xEC] @ ascii ''n'' @ [9] @
       ascii ''Yang Metal Dragon'' @ [9] @ ascii ''20'' @ [9] @ ascii ''41'' @ [9] @ ascii ''2000'',
     ascii ''18'' @ [9, 0x8F9B, 0x5DF3, 9] @ ascii ''x'' @ [0x12B] @ ascii ''n-s'' @ [0xEC, 9] @
       ascii ''shinsa '' @ [0xC2E0, 0xC0AC, 9] @ ascii ''shinshi/kanoto-mi'' @ [9] @ ascii ''T'' @
       [0xE2] @ ascii ''n T'' @ [0x1EF5, 9] @ ascii ''Yin Metal Snake'' @ [9] @ ascii ''21'' @ [9] @
       ascii ''40'' @ [9] @ ascii ''2001'',
     ascii ''19'' @ [9, 0x58EC, 0x5348, 9] @ ascii ''r'' @ [0xE9] @ ascii ''n-w'' @ [0x1D4, 9] @
       ascii ''imo '' @ [0xC784, 0xC624, 9] @ ascii ''jingo/mizunoe-uma'' @ [9] @ ascii ''Nh'' @
       [0xE2] @ ascii ''m Ng'' @ [0x1ECD, 9] @ ascii ''Yang Water Horse'' @ [9] @ ascii ''22'' @ [9] @
       ascii ''39'' @ [9] @ ascii ''2002'',
     ascii ''20'' @ [9, 0x7678, 0x672A, 9] @ ascii ''gu'' @ [0x1D0] @ ascii ''-w'' @ [0xE8] @
       ascii ''i'' @ [9] @ ascii ''gyemi '' @ [0xACC4, 0xBBF8, 9] @ ascii ''kibi/mizunoto-hitsuji'' @
       [9] @ ascii ''Qu'' @ [0xFD] @ ascii '' M'' @ [0xF9] @ ascii ''i'' @ [9] @
       ascii ''Yin Water Goat'' @ [9] @ ascii ''23'' @ [9] @ ascii ''38'' @ [9] @ ascii ''2003'',
     ascii ''21'' @ [9, 0x7532, 0x7533, 9] @ ascii ''ji'' @ [0x1CE] @ ascii ''-sh'' @ [0x113] @
       ascii ''n'' @ [9] @ ascii ''gapshin '' @ [0xAC11, 0xC2E0, 9] @ ascii ''k'' @ [0x14D] @
       ascii ''shin/kinoe-saru'' @ [9] @ ascii ''Gi'' @ [0xE1] @ ascii ''p Th'' @ [0xE2] @
       ascii ''n'' @ [9] @ ascii ''Yang Wood Monkey'' @ [9] @ ascii ''24'' @ [9] @ ascii ''37'' @
       [9] @ ascii ''2004'',
     ascii ''22'' @ [9, 0x4E59, 0x9149, 9] @ ascii ''y'' @ [0x1D0] @ ascii ''-y'' @ [0x1D2] @
       ascii ''u'' @ [9] @ ascii ''eulyu '' @ [0xC744, 0xC720, 9] @ ascii ''itsuy'' @ [0x16B] @
       ascii ''/kinoto-tori'' @ [9, 0x1EA4] @ ascii ''t D'' @ [0x1EAD] @ ascii ''u'' @ [9] @
       ascii ''Yin Wood Rooster'' @ [9] @ ascii ''25'' @ [9] @ ascii ''36'' @ [9] @ ascii ''2005'',
     ascii ''23'' @ [9, 0x4E19, 0x620C, 9] @ ascii ''b'' @ [0x1D0] @ ascii ''ng-x'' @ [0x16B, 9] @
       ascii ''byeongsul '' @ [0xBCD1, 0xC220, 9] @ ascii ''heijutsu/hinoe-inu'' @ [9] @ ascii ''B'' @
       [0xED] @ ascii ''nh Tu'' @ [0x1EA5] @ ascii ''t'' @ [9] @ ascii ''Yang Fire Dog'' @ [9] @
       ascii ''26'' @ [9] @ ascii ''35'' @ [9] @ ascii ''2006'',
     ascii ''24'' @ [9, 0x4E01, 0x4EA5, 9] @ ascii ''d'' @ [0x12B] @ ascii ''ng-h'' @ [0xE0] @
       ascii ''i'' @ [9] @ ascii ''jeonghae '' @ [0xC815, 0xD574, 9] @ ascii ''teigai/hinoto-i'' @
       [9, 0x110] @ ascii ''inh H'' @ [0x1EE3] @ ascii ''i'' @ [9] @ ascii ''Yin Fire Pig'' @ [9] @
       ascii ''27'' @ [9] @ ascii ''34'' @ [9] @ ascii ''2007'',
     ascii ''25'' @ [9, 0x620A, 0x5B50, 9] @ ascii ''w'' @ [0xF9] @ ascii ''-z'' @ [0x1D0, 9] @
       ascii ''muja '' @ [0xBB34, 0xC790, 9] @ ascii ''boshi/tsuchinoe-ne'' @ [9] @ ascii ''M'' @
       [0x1EAD] @ ascii ''u T'' @ [0xFD, 9] @ ascii ''Yang Earth Rat'' @ [9] @ ascii ''28'' @ [9] @
       ascii ''33'' @ [9] @ ascii ''2008'',
     ascii ''26'' @ [9, 0x5DF1, 0x4E11, 9] @ ascii ''j'' @ [0x1D0] @ ascii ''-ch'' @ [0x1D2] @
       ascii ''u'' @ [9] @ ascii ''gichuk '' @ [0xAE30, 0xCD95, 9] @ ascii ''kich'' @ [0x16B] @
       ascii ''/tsuchinoto-ushi'' @ [9] @ ascii ''K'' @ [0x1EF7] @ ascii '' S'' @ [0x1EED] @
       ascii ''u'' @ [9] @ ascii ''Yin Earth Ox'' @ [9] @ ascii ''29'' @ [9] @ ascii ''32'' @ [9] @
       ascii ''2009'',
     ascii ''27'' @ [9, 0x5E9A, 0x5BC5, 9] @ ascii ''g'' @ [0x113] @ ascii ''ng-y'' @ [0xED] @
       ascii ''n'' @ [9] @ ascii ''gyeongin '' @ [0xACBD, 0xC778, 9] @ ascii ''k'' @ [0x14D] @
       ascii ''in/kanoe-tora'' @ [9] @ ascii ''Canh D'' @ [0x1EA7] @ ascii ''n'' @ [9] @
       ascii ''Yang Metal Tiger'' @ [9] @ ascii ''30'' @ [9] @ ascii ''31'' @ [9] @ ascii ''2010'',
     ascii ''28'' @ [9, 0x8F9B, 0x536F, 9] @ ascii ''x'' @ [0x12B] @ ascii ''n-m'' @ [0x1CE] @
       ascii ''o'' @ [9] @ ascii ''shinmyo '' @ [0xC2E0, 0xBB18, 9] @ ascii ''shinb'' @ [0x14D] @
       ascii ''/kanoto-u'' @ [9] @ ascii ''T'' @ [0xE2] @ ascii ''n M'' @ [0xE3] @ ascii ''o'' @ [9] @
       ascii ''Yin Metal Rabbit'' @ [9] @ ascii ''31'' @ [9] @ ascii ''30'' @ [9] @ ascii ''2011'',
     ascii ''29'' @ [9, 0x58EC, 0x8FB0, 9] @ ascii ''r'' @ [0xE9] @ ascii ''n-ch'' @ [0xE9] @
       ascii ''n'' @ [9] @ ascii ''imjin '' @ [0xC784, 0xC9C4, 9] @ ascii ''jinshin/mizunoe-tatsu'' @
       [9] @ ascii ''Nh'' @ [0xE2] @ ascii ''m Th'' @ [0xEC] @ ascii ''n'' @ [9] @
       ascii ''Yang Water Dragon'' @ [9] @ ascii ''32'' @ [9] @ ascii ''29'' @ [9] @ ascii ''2012'',
     ascii ''30'' @ [9, 0x7678, 0x5DF3, 9] @ ascii ''gu'' @ [0x1D0] @ ascii ''-s'' @ [0xEC, 9] @
       ascii ''gyesa '' @ [0xACC4, 0xC0AC, 9] @ ascii ''kishi/mizunoto-mi'' @ [9] @ ascii ''Qu'' @
       [0xFD] @ ascii '' T'' @ [0x1EF5, 9] @ ascii ''Yin Water Snake'' @ [9] @ ascii ''33'' @ [9] @
       ascii ''28'' @ [9] @ ascii ''2013'',
     ascii ''31'' @ [9, 0x7532, 0x5348, 9] @ ascii ''ji'' @ [0x1CE] @ ascii ''-w'' @ [0x1D4, 9] @
       ascii ''gapo '' @ [0xAC11, 0xC624, 9] @ ascii ''k'' @ [0x14D] @ ascii ''go/kinoe-uma'' @ [9] @
       ascii ''Gi'' @ [0xE1] @ ascii ''o Ng'' @ [0x1ECD, 9] @ ascii ''Yang Wood Horse'' @ [9] @
       ascii ''34'' @ [9] @ ascii ''27'' @ [9] @ ascii ''2014'',
     ascii ''32'' @ [9, 0x4E59, 0x672A, 9] @ ascii ''y'' @ [0x1D0] @ ascii ''-w'' @ [0xE8] @
       ascii ''i'' @ [9] @ ascii ''eulmi '' @ [0xC744, 0xBBF8, 9] @ ascii ''itsubi/kinoto-hitsuji'' @
       [9, 0x1EA4] @ ascii ''t M'' @ [0xF9] @ ascii ''i'' @ [9] @ ascii ''Yin Wood Goat'' @ [9] @
       ascii ''35'' @ [9] @ ascii ''26'' @ [9] @ ascii ''2015'',
     ascii ''33'' @ [9, 0x4E19, 0x7533, 9] @ ascii ''b'' @ [0x1D0] @ ascii ''ng-sh'' @ [0x113] @
       ascii ''n'' @ [9] @ ascii ''byeongshin '' @ [0xBCD1, 0xC2E0, 9] @
       ascii ''heishin/hinoe-saru'' @ [9] @ ascii ''B'' @ [0xED] @ ascii ''nh Th'' @ [0xE2] @
       ascii ''n'' @ [9] @ ascii ''Yang Fire Monkey'' @ [9] @ ascii ''36'' @ [9] @ ascii ''25'' @
       [9] @ ascii ''2016'',
     ascii ''34'' @ [9, 0x4E01, 0x9149, 9] @ ascii ''d'' @ [0x12B] @ ascii ''ng-y'' @ [0x1D2] @
       ascii ''u'' @ [9] @ ascii ''jeongyu '' @ [0xC815, 0xC720, 9] @ ascii ''teiy'' @ [0x16B] @
       ascii ''/hinoto-tori'' @ [9, 0x110] @ ascii ''inh D'' @ [0x1EAD] @ ascii ''u'' @ [9] @
       ascii ''Yin Fire Rooster'' @ [9] @ ascii ''37'' @ [9] @ ascii ''24'' @ [9] @ ascii ''2017'',
     ascii ''35'' @ [9, 0x620A, 0x620C, 9] @ ascii ''w'' @ [0xF9] @ ascii ''-x'' @ [0x16B, 9] @
       ascii ''musul '' @ [0xBB34, 0xC220, 9] @ ascii ''bojutsu/tsuchinoe-inu'' @ [9] @ ascii ''M'' @
       [0x1EAD] @ ascii ''u Tu'' @ [0x1EA5] @ ascii ''t'' @ [9] @ ascii ''Yang Earth Dog'' @ [9] @
       ascii ''38'' @ [9] @ ascii ''23'' @ [9] @ ascii ''2018'',
     ascii ''36'' @ [9, 0x5DF1, 0x4EA5, 9] @ ascii ''j'' @ [0x1D0] @ ascii ''-h'' @ [0xE0] @
       ascii ''i'' @ [9] @ ascii ''gihae '' @ [0xAE30, 0xD574, 9] @ ascii ''kigai/tsuchinoto-i'' @
       [9] @ ascii ''K'' @ [0x1EF7] @ ascii '' H'' @ [0x1EE3] @ ascii ''i'' @ [9] @
       ascii ''Yin Earth Pig'' @ [9] @ ascii ''39'' @ [9] @ ascii ''22'' @ [9] @ ascii ''2019'',
     ascii ''37'' @ [9, 0x5E9A, 0x5B50, 9] @ ascii ''g'' @ [0x113] @ ascii ''ng-z'' @ [0x1D0, 9] @
       ascii ''gyeongja '' @ [0xACBD, 0xC790, 9] @ ascii ''k'' @ [0x14D] @ ascii ''shi/kanoe-ne'' @
       [9] @ ascii ''Canh T'' @ [0xFD, 9] @ ascii ''Yang Metal Rat'' @ [9] @ ascii ''40'' @ [9] @
       ascii ''21'' @ [9] @ ascii ''2020'',
     ascii ''38'' @ [9, 0x8F9B, 0x4E11, 9] @ ascii ''x'' @ [0x12B] @ ascii ''n-ch'' @ [0x1D2] @
       ascii ''u'' @ [9] @ ascii ''shinchuk '' @ [0xC2E0, 0xCD95, 9] @ ascii ''shinch'' @ [0x16B] @
       ascii ''/kanoto-ushi'' @ [9] @ ascii ''T'' @ [0xE2] @ ascii ''n S'' @ [0x1EED] @ ascii ''u'' @
       [9] @ ascii ''Yin Metal Ox'' @ [9] @ ascii ''41'' @ [9] @ ascii ''20'' @ [9] @ ascii ''2021'',
     ascii ''39'' @ [9, 0x58EC, 0x5BC5, 9] @ ascii ''r'' @ [0xE9] @ ascii ''n-y'' @ [0xED] @
       ascii ''n'' @ [9] @ ascii ''imin '' @ [0xC784, 0xC778, 9] @ ascii ''jin'' @ [39] @
       ascii ''in/mizunoe-tora'' @ [9] @ ascii ''Nh'' @ [0xE2] @ ascii ''m D'' @ [0x1EA7] @
       ascii ''n'' @ [9] @ ascii ''Yang Water Tiger'' @ [9] @ ascii ''42'' @ [9] @ ascii ''19'' @
       [9] @ ascii ''2022'',
     ascii ''40'' @ [9, 0x7678, 0x536F, 9] @ ascii ''gu'' @ [0x1D0] @ ascii ''-m'' @ [0x1CE] @
       ascii ''o'' @ [9] @ ascii ''gyemyo '' @ [0xACC4, 0xBB18, 9] @ ascii ''kib'' @ [0x14D] @
       ascii ''/mizunoto-u'' @ [9] @ ascii ''Qu'' @ [0xFD] @ ascii '' M'' @ [0xE3] @ ascii ''o'' @
       [9] @ ascii ''Yin Water Rabbit'' @ [9] @ ascii ''43'' @ [9] @ ascii ''18'' @ [9] @
       ascii ''2023'',
     ascii ''41'' @ [9, 0x7532, 0x8FB0, 9] @ ascii ''ji'' @ [0x1CE] @ ascii ''-ch'' @ [0xE9] @
       ascii ''n'' @ [9] @ ascii ''gapjin '' @ [0xAC11, 0xC9C4, 9] @ ascii ''k'' @ [0x14D] @
       ascii ''shin/kinoe-tatsu'' @ [9] @ ascii ''Gi'' @ [0xE1] @ ascii ''p Th'' @ [0xEC] @
       ascii ''n'' @ [9] @ ascii ''Yang Wood Dragon'' @ [9] @ ascii ''44'' @ [9] @ ascii ''17'' @
       [9] @ ascii ''2024'',
     ascii ''42'' @ [9, 0x4E59, 0x5DF3, 9] @ ascii ''y'' @ [0x1D0] @ ascii ''-s'' @ [0xEC, 9] @
       ascii ''eulsa '' @ [0xC744, 0xC0AC, 9] @ ascii ''itsushi/kinoto-mi'' @ [9, 0x1EA4] @
       ascii ''t T'' @ [0x1EF5, 9] @ ascii ''Yin Wood Snake'' @ [9] @ ascii ''45'' @ [9] @
       ascii ''16'' @ [9] @ ascii ''2025'',
     ascii ''43'' @ [9, 0x4E19, 0x5348, 9] @ ascii ''b'' @ [0x1D0] @ ascii ''ng-w'' @ [0x1D4, 9] @
       ascii ''byeongo '' @ [0xBCD1, 0xC624, 9] @ ascii ''heigo/hinoe-uma'' @ [9] @ ascii ''B'' @
       [0xED] @ ascii ''nh Ng'' @ [0x1ECD, 9] @ ascii ''Yang Fire Horse'' @ [9] @ ascii ''46'' @ [9] @
       ascii ''15'' @ [9] @ ascii ''2026'',
     ascii ''44'' @ [9, 0x4E01, 0x672A, 9] @ ascii ''d'' @ [0x12B] @ ascii ''ng-w'' @ [0xE8] @
       ascii ''i'' @ [9] @ ascii ''jeongmi '' @ [0xC815, 0xBBF8, 9] @ ascii ''teibi/hinoto-hitsuji'' @
       [9, 0x110] @ ascii ''inh M'' @ [0xF9] @ ascii ''i'' @ [9] @ ascii ''Yin Fire Goat'' @ [9] @
       ascii ''47'' @ [9] @ ascii ''14'' @ [9] @ ascii ''2027'',
     ascii ''45'' @ [9, 0x620A, 0x7533, 9] @ ascii ''w'' @ [0xF9] @ ascii ''-sh'' @ [0x113] @
       ascii ''n'' @ [9] @ ascii ''mushin '' @ [0xBB34, 0xC2E0, 9] @ ascii ''boshin/tsuchinoe-saru'' @
       [9] @ ascii ''M'' @ [0x1EAD] @ ascii ''u Th'' @ [0xE2] @ ascii ''n'' @ [9] @
       ascii ''Yang Earth Monkey'' @ [9] @ ascii ''48'' @ [9] @ ascii ''13'' @ [9] @ ascii ''2028'',
     ascii ''46'' @ [9, 0x5DF1, 0x9149, 9] @ ascii ''j'' @ [0x1D0] @ ascii ''-y'' @ [0x1D2] @
       ascii ''u'' @ [9] @ ascii ''giyu '' @ [0xAE30, 0xC720, 9] @ ascii ''kiy'' @ [0x16B] @
       ascii ''/tsuchinoto-tori'' @ [9] @ ascii ''K'' @ [0x1EF7] @ ascii '' D'' @ [0x1EAD] @
       ascii ''u'' @ [9] @ ascii ''Yin Earth Rooster'' @ [9] @ ascii ''49'' @ [9] @ ascii ''12'' @
       [9] @ ascii ''2029'',
     ascii ''47'' @ [9, 0x5E9A, 0x620C, 9] @ ascii ''g'' @ [0x113] @ ascii ''ng-x'' @ [0x16B, 9] @
       ascii ''gyeongsul '' @ [0xACBD, 0xC220, 9] @ ascii ''k'' @ [0x14D] @
       ascii ''jutsu/kanoe-inu'' @ [9] @ ascii ''Canh Tu'' @ [0x1EA5] @ ascii ''t'' @ [9] @
       ascii ''Yang Metal Dog'' @ [9] @ ascii ''50'' @ [9] @ ascii ''11'' @ [9] @ ascii ''2030'',
     ascii ''48'' @ [9, 0x8F9B, 0x4EA5, 9] @ ascii ''x'' @ [0x12B] @ ascii ''n-h'' @ [0xE0] @
       ascii ''i'' @ [9] @ ascii ''shinhae '' @ [0xC2E0, 0xD574, 9] @ ascii ''shingai/kanoto-i'' @
       [9] @ ascii ''T'' @ [0xE2] @ ascii ''n H'' @ [0x1EE3] @ ascii ''i'' @ [9] @
       ascii ''Yin Metal Pig'' @ [9] @ ascii ''51'' @ [9] @ ascii ''10'' @ [9] @ ascii ''2031'',
     ascii ''49'' @ [9, 0x58EC, 0x5B50, 9] @ ascii ''r'' @ [0xE9] @ ascii ''n-z'' @ [0x1D0, 9] @
       ascii ''imja '' @ [0xC784, 0xC790, 9] @ ascii ''jinshi/mizunoe-ne'' @ [9] @ ascii ''Nh'' @
       [0xE2] @ ascii ''m T'' @ [0xFD, 9] @ ascii ''Yang Water Rat'' @ [9] @ ascii ''52'' @ [9] @
       ascii ''9'' @ [9] @ ascii ''2032'',
     ascii ''50'' @ [9, 0x7678, 0x4E11, 9] @ ascii ''gu'' @ [0x1D0] @ ascii ''-ch'' @ [0x1D2] @
       ascii ''u'' @ [9] @ ascii ''gyechuk '' @ [0xACC4, 0xCD95, 9] @ ascii ''kich'' @ [0x16B] @
       ascii ''/mizunoto-ushi'' @ [9] @ ascii ''Qu'' @ [0xFD] @ ascii '' S'' @ [0x1EED] @
       ascii ''u'' @ [9] @ ascii ''Yin Water Ox'' @ [9] @ ascii ''53'' @ [9] @ ascii ''8'' @ [9] @
       ascii ''2033'',
     ascii ''51'' @ [9, 0x7532, 0x5BC5, 9] @ ascii ''ji'' @ [0x1CE] @ ascii ''-y'' @ [0xED] @
       ascii ''n'' @ [9] @ ascii ''gapin '' @ [0xAC11, 0xC778, 9] @ ascii ''k'' @ [0x14D] @
       ascii ''in/kinoe-tora'' @ [9] @ ascii ''Gi'' @ [0xE1] @ ascii ''p D'' @ [0x1EA7] @
       ascii ''n'' @ [9] @ ascii ''Yang Wood Tiger'' @ [9] @ ascii ''54'' @ [9] @ ascii ''7'' @ [9] @
       ascii ''2034'',
     ascii ''52'' @ [9, 0x4E59, 0x536F, 9] @ ascii ''y'' @ [0x1D0] @ ascii ''-m'' @ [0x1CE] @
       ascii ''o'' @ [9] @ ascii ''eulmyo '' @ [0xC744, 0xBB18, 9] @ ascii ''itsub'' @ [0x14D] @
       ascii ''/kinoto-u'' @ [9, 0x1EA4] @ ascii ''t M'' @ [0xE3] @ ascii ''o'' @ [9] @
       ascii ''Yin Wood Rabbit'' @ [9] @ ascii ''55'' @ [9] @ ascii ''6'' @ [9] @ ascii ''2035'',
     ascii ''53'' @ [9, 0x4E19, 0x8FB0, 9] @ ascii ''b'' @ [0x1D0] @ ascii ''ng-ch'' @ [0xE9] @
       ascii ''n'' @ [9] @ ascii ''byeongjin '' @ [0xBCD1, 0xC9C4, 9] @
       ascii ''heishin/hinoe-tatsu'' @ [9] @ ascii ''B'' @ [0xED] @ ascii ''nh Th'' @ [0xEC] @
       ascii ''n'' @ [9] @ ascii ''Yang Fire Dragon'' @ [9] @ ascii ''56'' @ [9] @ ascii ''5'' @ [9] @
       ascii ''2036'',
     ascii ''54'' @ [9, 0x4E01, 0x5DF3, 9] @ ascii ''d'' @ [0x12B] @ ascii ''ng-s'' @ [0xEC, 9] @
       ascii ''jeongsa '' @ [0xC815, 0xC0AC, 9] @ ascii ''teishi/hinoto-mi'' @ [9, 0x110] @
       ascii ''inh T'' @ [0x1EF5, 9] @ ascii ''Yin Fire Snake'' @ [9] @ ascii ''57'' @ [9] @
       ascii ''4'' @ [9] @ ascii ''2037'',
     ascii ''55'' @ [9, 0x620A, 0x5348, 9] @ ascii ''w'' @ [0xF9] @ ascii ''-w'' @ [0x1D4, 9] @
       ascii ''muo '' @ [0xBB34, 0xC624, 9] @ ascii ''bogo/tsuchinoe-uma'' @ [9] @ ascii ''M'' @
       [0x1EAD] @ ascii ''u Ng'' @ [0x1ECD, 9] @ ascii ''Yang Earth Horse'' @ [9] @ ascii ''58'' @
       [9] @ ascii ''3'' @ [9] @ ascii ''2038'',
     ascii ''56'' @ [9, 0x5DF1, 0x672A, 9] @ ascii ''j'' @ [0x1D0] @ ascii ''-w'' @ [0xE8] @
       ascii ''i'' @ [9] @ ascii ''gimi '' @ [0xAE30, 0xBBF8, 9] @ ascii ''kibi/tsuchinoto-hitsuji'' @
       [9] @ ascii ''K'' @ [0x1EF7] @ ascii '' M'' @ [0xF9] @ ascii ''i'' @ [9] @
       ascii ''Yin Earth Goat'' @ [9] @ ascii ''59'' @ [9] @ ascii ''2'' @ [9] @ ascii ''2039'',
     ascii ''57'' @ [9, 0x5E9A, 0x7533, 9] @ ascii ''g'' @ [0x113] @ ascii ''ng-sh'' @ [0x113] @
       ascii ''n'' @ [9] @ ascii ''gyeongshin '' @ [0xACBD, 0xC2E0, 9] @ ascii ''k'' @ [0x14D] @
       ascii ''shin/kanoe-saru'' @ [9] @ ascii ''Canh Th'' @ [0xE2] @ ascii ''n'' @ [9] @
       ascii ''Yang Metal Monkey'' @ [9] @ ascii ''60'' @ [9] @ ascii ''1'' @ [9] @ ascii ''2040'',
     ascii ''58'' @ [9, 0x8F9B, 0x9149, 9] @ ascii ''x'' @ [0x12B] @ ascii ''n-y'' @ [0x1D2] @
       ascii ''u'' @ [9] @ ascii ''shinyu '' @ [0xC2E0, 0xC720, 9] @ ascii ''shin'' @ [39] @
       ascii ''y'' @ [0x16B] @ ascii ''/kanoto-tori'' @ [9] @ ascii ''T'' @ [0xE2] @ ascii ''n D'' @
       [0x1EAD] @ ascii ''u'' @ [9] @ ascii ''Yin Metal Rooster'' @ [9] @ ascii ''1'' @ [9] @
       ascii ''60'' @ [9] @ ascii ''2041'',
     ascii ''59'' @ [9, 0x58EC, 0x620C, 9] @ ascii ''r'' @ [0xE9] @ ascii ''n-x'' @ [0x16B, 9] @
       ascii ''imsul '' @ [0xC784, 0xC220, 9] @ ascii ''jinjutsu/mizunoe-inu'' @ [9] @ ascii ''Nh'' @
       [0xE2] @ ascii ''m Tu'' @ [0x1EA5] @ ascii ''t'' @ [9] @ ascii ''Yang Water Dog'' @ [9] @
       ascii ''2'' @ [9] @ ascii ''59'' @ [9] @ ascii ''2042'',
     ascii ''60'' @ [9, 0x7678, 0x4EA5, 9] @ ascii ''gu'' @ [0x1D0] @ ascii ''-h'' @ [0xE0] @
       ascii ''i'' @ [9] @ ascii ''gyehae '' @ [0xACC4, 0xD574, 9] @ ascii ''kigai/mizunoto-i'' @
       [9] @ ascii ''Qu'' @ [0xFD] @ ascii '' H'' @ [0x1EE3] @ ascii ''i'' @ [9] @
       ascii ''Yin Water Pig'' @ [9] @ ascii ''3'' @ [9] @ ascii ''58'' @ [9] @ ascii ''2043'']"

definition indent :: pystr where
  "indent = ascii ''        ''"

definition table :: pystr where
  "table = concat (map (\<lambda>l. indent @ l @ [10]) table_lines) @ indent"

text \<open>
  The body of the \<^verbatim>\<open>try\<close> block for one line: the key and the entry stored, or the class
  of the exception raised (\<^verbatim>\<open>ValueError\<close> by \<^verbatim>\<open>int\<close>, \<^verbatim>\<open>IndexError\<close> by a subscript
  beyond the parts).
\<close>

definition parse_line :: "pystr \<Rightarrow> exc_class + (int \<times> entry)" where
  "parse_line line =
     (let parts = str_split (str_strip line) 9 in
      if length parts < 1 then Inl IndexError
      else case int_of_str (parts ! 0) of
        None \<Rightarrow> Inl ValueError
      | Some year_order \<Rightarrow>
          if length parts < 7 then Inl IndexError
          else let hanja = parts ! 1 in
            Inr (year_order,
                 [(ascii ''chi'', [parts ! 2, hanja]),
                  (ascii ''kor'', [parts ! 3, hanja]),
                  (ascii ''jap'', [parts ! 4, hanja]),
                  (ascii ''viet'', [parts ! 5, hanja]),
                  (ascii ''eng'', [parts ! 6, hanja])]))"

text \<open>
  One round of the loop. Both exceptions the body can raise are caught by
  \<^verbatim>\<open>except (ValueError, IndexError): pass\<close>, which leaves the table as it is.
\<close>

definition loop_body :: "pystr \<Rightarrow> lunar_table \<Rightarrow> lunar_table" where
  "loop_body line lunar_table =
     (case parse_line line of
        Inr (year_order, e) \<Rightarrow> AList.update year_order e lunar_table
      | Inl c \<Rightarrow> lunar_table)"

definition get_year :: lunar_table where
  "get_year = fold loop_body (str_split (str_strip table) 10) []"

subsection \<open>\<^verbatim>\<open>__init__\<close> and \<^verbatim>\<open>lang\<close>\<close>

text \<open>
  \<open>init v c\<close> is \<^verbatim>\<open>LunarYear(v)\<close> in class state \<open>c\<close>: the exception raised or the new
  instance, and the class state afterwards. An exception of \<^verbatim>\<open>int\<close> other than
  \<^verbatim>\<open>ValueError\<close> and \<^verbatim>\<open>TypeError\<close> is not caught and reaches the caller.
\<close>

definition init :: "pyval \<Rightarrow> cls \<Rightarrow> (exc + LunarYear) \<times> cls" where
  "init v c =
     (case py_int v of
        Inl k \<Rightarrow>
          if k = ValueError \<or> k = TypeError
          then (Inl (Exc TypeError (Some (ascii ''Year must be an integer, got '' @ type_name v))), c)
          else (Inl (Exc k None), c)
      | Inr y \<Rightarrow>
          if \<not> (MIN_YEAR \<le> y \<and> y \<le> MAX_YEAR)
          then (Inl (Exc ValueError (Some
                  (ascii ''Year must be between '' @ str_of_int MIN_YEAR @ ascii '' and '' @
                   str_of_int MAX_YEAR @ ascii '', got '' @ str_of_int y))), c)
          else (Inr \<lparr>gregorian_year = y, year_in_cycle = (y - 4) mod 60 + 1\<rparr>,
                if TABLE c = None then c\<lparr>TABLE := Some get_year\<rparr> else c))"

text \<open>
  \<^verbatim>\<open>t[position][code]\<close>: two dictionary subscripts, each raising \<^verbatim>\<open>KeyError\<close> on a
  missing key.
\<close>

definition table_lookup :: "lunar_table \<Rightarrow> int \<Rightarrow> pystr \<Rightarrow> exc + pystr list" where
  "table_lookup t position code =
     (case map_of t position of
        None \<Rightarrow> Inl (Exc KeyError None)
      | Some e \<Rightarrow> (case map_of e code of None \<Rightarrow> Inl (Exc KeyError None) | Some v \<Rightarrow> Inr v))"

text \<open>
  \<open>lang c self code\<close> is \<^verbatim>\<open>self.lang(code)\<close> in class state \<open>c\<close>. Subscripting
  \<^verbatim>\<open>_TABLE\<close> while it is still \<^verbatim>\<open>None\<close> is a \<^verbatim>\<open>TypeError\<close> of the interpreter.
\<close>

definition lang :: "cls \<Rightarrow> LunarYear \<Rightarrow> pystr \<Rightarrow> exc + pystr list" where
  "lang c self code =
     (if code \<notin> SUPPORTED_LANGUAGES
      then Inl (Exc ValueError (Some
             (ascii ''Language '' @ [39] @ code @ [39] @ ascii '' not supported. Choose from: '' @
              str_join (ascii '', '') (sorted_list_of_set SUPPORTED_LANGUAGES))))
      else case TABLE c of
             None \<Rightarrow> Inl (Exc TypeError None)
           | Some t \<Rightarrow> table_lookup t (year_in_cycle self) code)"


subsection \<open>\<^verbatim>\<open>lang\<close> as it runs\<close>

text \<open>
  \<open>lang\<close> above gives what a call returns or raises. Here the body of the method is
  run statement by statement on a program state, the class state and the instance the
  method is called on. A statement takes a state and gives the value it yields or the
  exception it raises, together with the state it leaves; \<open>stmt_bind\<close> runs one
  statement after another and stops at the first exception. Reading an attribute is a
  statement that leaves the state as it is.
\<close>

type_synonym pstate = "cls \<times> LunarYear"

type_synonym 'a stmt = "pstate \<Rightarrow> (exc + 'a) \<times> pstate"

definition stmt_return :: "'a \<Rightarrow> 'a stmt" where
  "stmt_return x s = (Inr x, s)"

definition stmt_raise :: "exc \<Rightarrow> 'a stmt" where
  "stmt_raise e s = (Inl e, s)"

definition stmt_bind :: "'a stmt \<Rightarrow> ('a \<Rightarrow> 'b stmt) \<Rightarrow> 'b stmt" where
  "stmt_bind m f s = (case m s of (Inl e, s') \<Rightarrow> (Inl e, s') | (Inr x, s') \<Rightarrow> f x s')"

text \<open>\<^verbatim>\<open>self._TABLE\<close> and \<^verbatim>\<open>self.year_in_cycle\<close>.\<close>

definition read_TABLE :: "lunar_table option stmt" where
  "read_TABLE s = (Inr (TABLE (fst s)), s)"

definition read_year_in_cycle :: "int stmt" where
  "read_year_in_cycle s = (Inr (year_in_cycle (snd s)), s)"

text \<open>
  The body of \<^verbatim>\<open>lang\<close>: the membership test with its \<^verbatim>\<open>raise\<close>, then the
  \<^verbatim>\<open>return\<close>, which reads \<^verbatim>\<open>self._TABLE\<close>, reads \<^verbatim>\<open>self.year_in_cycle\<close> and
  subscripts twice.
\<close>

definition lang_exec :: "pystr \<Rightarrow> pystr list stmt" where
  "lang_exec code =
     (if code \<notin> SUPPORTED_LANGUAGES
      then stmt_raise (Exc ValueError (Some
             (ascii ''Language '' @ [39] @ code @ [39] @ ascii '' not supported. Choose from: '' @
              str_join (ascii '', '') (sorted_list_of_set SUPPORTED_LANGUAGES))))
      else stmt_bind read_TABLE (\<lambda>t.
           stmt_bind read_year_in_cycle (\<lambda>position.
             case t of
               None \<Rightarrow> stmt_raise (Exc TypeError None)
             | Some tbl \<Rightarrow>
                 (case table_lookup tbl position code of
                    Inl e \<Rightarrow> stmt_raise e
                  | Inr v \<Rightarrow> stmt_return v))))"

text \<open>
  A caller that makes one call of \<^verbatim>\<open>lang\<close> after another on the same instance,
  catching what a call raises: each call starts in the state the call before it left.
  The results are collected, with the last state.
\<close>

fun run_lang :: "pystr list \<Rightarrow> pstate \<Rightarrow> (exc + pystr list) list \<times> pstate" where
  "run_lang [] s = ([], s)"
| "run_lang (code # codes) s =
     (case lang_exec code s of
        (r, s') \<Rightarrow> (case run_lang codes s' of (rs, s'') \<Rightarrow> (r # rs, s'')))"

section \<open>Notions used to state the properties\<close>

text \<open>
  The class states that occur: \<^verbatim>\<open>_TABLE\<close> is \<^verbatim>\<open>None\<close> when the module is loaded and
  is only ever assigned the result of \<^verbatim>\<open>_get_year()\<close>.
\<close>

definition wf_cls :: "cls \<Rightarrow> bool" where
  "wf_cls c \<longleftrightarrow> TABLE c = None \<or> TABLE c = Some get_year"

text \<open>
  What it means for a value to be an integral number: an integer, a finite float
  whose value is a whole number, or a text that \<^verbatim>\<open>int\<close> reads as an integer.
  A text is called non-numeric when it contains a character that is neither a decimal
  digit, nor whitespace, nor a sign, nor an underscore.
\<close>

fun is_integral :: "pyval \<Rightarrow> bool" where
  "is_integral (PyInt i) = True"
| "is_integral (PyStr s) = (int_of_str s \<noteq> None)"
| "is_integral (PyFloat (Finite m e)) = (0 \<le> e \<or> m mod 2 ^ nat (- e) = 0)"
| "is_integral (PyFloat NaN) = False"
| "is_integral (PyFloat (Infinity negative)) = False"
| "is_integral PyNone = False"

definition non_numeric :: "pystr \<Rightarrow> bool" where
  "non_numeric s \<longleftrightarrow>
     list_ex (\<lambda>c. decimal c = None \<and> \<not> int_isspace c \<and> c \<noteq> 0x2B \<and> c \<noteq> 0x2D \<and> c \<noteq> 0x5F) s"

text \<open>
  Three functions that read off one line what the evaluation of the table needs: the
  key a line is stored under, the same for a line free of newlines, and the first and the
  last character of the sixty lines.
\<close>

definition line_key :: "pystr \<Rightarrow> int option" where
  "line_key l = (case parse_line l of Inl c \<Rightarrow> None | Inr (k, e) \<Rightarrow> Some k)"

definition line_check :: "pystr \<Rightarrow> int option" where
  "line_check l = (if 10 \<in> set l then None else line_key l)"

definition text_ends :: "pystr list \<Rightarrow> (nat \<times> nat) option" where
  "text_ends ls =
     (if ls ! 0 = [] \<or> ls ! 59 = [] then None else Some (hd (ls ! 0), last (ls ! 59)))"

text \<open>
  The entries of lines 41 and 42 of the literal (lines 147 and 148 of the source), which
  are those of the years 2024 and 2025.
\<close>

definition entry_41 :: entry where
  "entry_41 =
     [(ascii ''chi'', [ascii ''ji'' @ [0x1CE] @ ascii ''-ch'' @ [0xE9] @ ascii ''n'', [0x7532, 0x8FB0]]),
      (ascii ''kor'', [ascii ''gapjin '' @ [0xAC11, 0xC9C4], [0x7532, 0x8FB0]]),
      (ascii ''jap'', [ascii ''k'' @ [0x14D] @ ascii ''shin/kinoe-tatsu'', [0x7532, 0x8FB0]]),
      (ascii ''viet'', [ascii ''Gi'' @ [0xE1] @ ascii ''p Th'' @ [0xEC] @ ascii ''n'', [0x7532, 0x8FB0]]),
      (ascii ''eng'', [ascii ''Yang Wood Dragon'', [0x7532, 0x8FB0]])]"

definition entry_42 :: entry where
  "entry_42 =
     [(ascii ''chi'', [ascii ''y'' @ [0x1D0] @ ascii ''-s'' @ [0xEC], [0x4E59, 0x5DF3]]),
      (ascii ''kor'', [ascii ''eulsa '' @ [0xC744, 0xC0AC], [0x4E59, 0x5DF3]]),
      (ascii ''jap'', [ascii ''itsushi/kinoto-mi'', [0x4E59, 0x5DF3]]),
      (ascii ''viet'', [[0x1EA4] @ ascii ''t T'' @ [0x1EF5], [0x4E59, 0x5DF3]]),
      (ascii ''eng'', [ascii ''Yin Wood Snake'', [0x4E59, 0x5DF3]])]"

section \<open>Construction: range check and cycle position\<close>

lemma digits_of_small: "n < 10 \<Longrightarrow> digits_of n = [0x30 + n]"
  by (simp add: digits_of.simps)

lemma bounds_text: "str_of_int MIN_YEAR = ascii ''4'' \<and> str_of_int MAX_YEAR = ascii ''9999''"
  by (simp add: str_of_int_def MIN_YEAR_def MAX_YEAR_def digits_of.simps ascii_def)

lemma init_in_range:
  assumes "4 \<le> y" and "y \<le> 9999"
  shows "init (PyInt y) c =
           (Inr \<lparr>gregorian_year = y, year_in_cycle = (y - 4) mod 60 + 1\<rparr>,
            if TABLE c = None then c\<lparr>TABLE := Some get_year\<rparr> else c)"
  using assms by (simp add: init_def MIN_YEAR_def MAX_YEAR_def)

lemma init_Inr:
  assumes "init v c = (Inr self, c')"
  shows "\<exists>y. py_int v = Inr y \<and> 4 \<le> y \<and> y \<le> 9999 \<and>
           self = \<lparr>gregorian_year = y, year_in_cycle = (y - 4) mod 60 + 1\<rparr> \<and>
           c' = (if TABLE c = None then c\<lparr>TABLE := Some get_year\<rparr> else c)"
  using assms by (auto simp: init_def MIN_YEAR_def MAX_YEAR_def split: sum.splits if_splits)

text \<open>The class states that occur are those of \<open>wf_cls\<close>.\<close>

lemma wf_cls_initial: "wf_cls cls_initial"
  by (simp add: wf_cls_def cls_initial_def)

lemma wf_cls_init: "wf_cls c \<Longrightarrow> wf_cls (snd (init v c))"
  by (auto simp: init_def wf_cls_def split: sum.splits)

text \<open>
  Claim C1. For every integer \<open>y\<close> from 4 to 9999, \<^verbatim>\<open>LunarYear(y)\<close> succeeds in any class
  state, stores \<open>y\<close>, and its position in the cycle is \<open>(y - 4) mod 60 + 1\<close>, a number
  from 1 to 60. Year 4 has position 1, year 63 position 60 and year 64 position 1.
\<close>

theorem cycle_position:
  assumes "4 \<le> y" and "y \<le> 9999"
  shows "(\<exists>self. fst (init (PyInt y) c) = Inr self \<and> gregorian_year self = y \<and>
            year_in_cycle self = (y - 4) mod 60 + 1 \<and>
            1 \<le> year_in_cycle self \<and> year_in_cycle self \<le> 60) \<and>
         fst (init (PyInt 4) c) = Inr \<lparr>gregorian_year = 4, year_in_cycle = 1\<rparr> \<and>
         fst (init (PyInt 63) c) = Inr \<lparr>gregorian_year = 63, year_in_cycle = 60\<rparr> \<and>
         fst (init (PyInt 64) c) = Inr \<lparr>gregorian_year = 64, year_in_cycle = 1\<rparr>"
proof -
  have "0 \<le> (y - 4) mod 60" and "(y - 4) mod 60 < 60"
    by simp_all
  then have "1 \<le> (y - 4) mod 60 + 1 \<and> (y - 4) mod 60 + 1 \<le> 60"
    by simp
  then have "\<exists>self. fst (init (PyInt y) c) = Inr self \<and> gregorian_year self = y \<and>
      year_in_cycle self = (y - 4) mod 60 + 1 \<and> 1 \<le> year_in_cycle self \<and> year_in_cycle self \<le> 60"
    using assms by (simp add: init_in_range)
  moreover have "fst (init (PyInt 4) c) = Inr \<lparr>gregorian_year = 4, year_in_cycle = 1\<rparr>"
    by (simp add: init_in_range)
  moreover have "fst (init (PyInt 63) c) = Inr \<lparr>gregorian_year = 63, year_in_cycle = 60\<rparr>"
    by (simp add: init_in_range)
  moreover have "fst (init (PyInt 64) c) = Inr \<lparr>gregorian_year = 64, year_in_cycle = 1\<rparr>"
    by (simp add: init_in_range)
  ultimately show ?thesis by blast
qed

theorem cycle_position_witness:
  "(4::int) \<le> 2024 \<and> (2024::int) \<le> 9999 \<and>
   (\<exists>self. fst (init (PyInt 2024) cls_initial) = Inr self \<and> year_in_cycle self = 41)"
  using cycle_position [of 2024 cls_initial] by auto

text \<open>
  Claim C5. For every integer outside 4 to 9999 (3 and 10000 among them),
  \<^verbatim>\<open>LunarYear(y)\<close> raises the \<^verbatim>\<open>ValueError\<close> of the range check; its message names
  both bounds and the value given, and the class state is left as it was.
\<close>

theorem year_out_of_range:
  assumes "y < 4 \<or> 9999 < y"
  shows "init (PyInt y) c =
           (Inl (Exc ValueError (Some
              (ascii ''Year must be between 4 and 9999, got '' @ str_of_int y))), c)"
proof -
  have "\<not> (MIN_YEAR \<le> y \<and> y \<le> MAX_YEAR)"
    using assms by (auto simp: MIN_YEAR_def MAX_YEAR_def)
  moreover have "ascii ''Year must be between '' @ ascii ''4'' @ ascii '' and '' @ ascii ''9999'' @ ascii '', got ''
                 = ascii ''Year must be between 4 and 9999, got ''"
    by (simp add: ascii_def)
  ultimately show ?thesis
    by (simp add: init_def bounds_text)
qed

theorem year_out_of_range_witness:
  "init (PyInt 3) cls_initial =
     (Inl (Exc ValueError (Some (ascii ''Year must be between 4 and 9999, got 3''))), cls_initial) \<and>
   init (PyInt 10000) cls_initial =
     (Inl (Exc ValueError (Some (ascii ''Year must be between 4 and 9999, got 10000''))), cls_initial)"
  using year_out_of_range [of 3 cls_initial] year_out_of_range [of 10000 cls_initial]
  by (simp add: str_of_int_def digits_of.simps ascii_def)

text \<open>
  Claim C7. The position in the cycle has period 60: when \<open>y\<close> and \<open>y + 60\<close> both lie
  in 4 to 9999, both constructions succeed and give the same position.
\<close>

theorem cycle_periodic:
  assumes "4 \<le> y" and "y + 60 \<le> 9999"
  shows "\<exists>a b. fst (init (PyInt y) c) = Inr a \<and> fst (init (PyInt (y + 60)) c) = Inr b \<and>
           year_in_cycle b = year_in_cycle a"
proof -
  let ?a = "\<lparr>gregorian_year = y, year_in_cycle = (y - 4) mod 60 + 1\<rparr>"
  let ?b = "\<lparr>gregorian_year = y + 60, year_in_cycle = (y + 60 - 4) mod 60 + 1\<rparr>"
  have "fst (init (PyInt y) c) = Inr ?a"
    using assms by (simp add: init_in_range)
  moreover have "fst (init (PyInt (y + 60)) c) = Inr ?b"
  proof -
    have "4 \<le> y + 60"
      using assms by simp
    then show ?thesis
      using assms(2) by (simp only: init_in_range fst_conv)
  qed
  moreover have "year_in_cycle ?b = year_in_cycle ?a"
  proof -
    have "y + 60 - 4 = y - 4 + 60"
      by simp
    then have "(y + 60 - 4) mod 60 = (y - 4 + 60) mod 60"
      by (simp only:)
    also have "\<dots> = (y - 4) mod 60"
      by (rule mod_add_self2)
    finally show ?thesis
      by (simp only: LunarYear.select_convs)
  qed
  ultimately show ?thesis by blast
qed

theorem cycle_periodic_witness:
  "(4::int) \<le> 1964 \<and> (1964::int) + 60 \<le> 9999 \<and>
   (\<exists>a b. fst (init (PyInt 1964) cls_initial) = Inr a \<and>
      fst (init (PyInt (1964 + 60)) cls_initial) = Inr b \<and> year_in_cycle b = year_in_cycle a)"
proof -
  have h: "(4::int) \<le> 1964" "(1964::int) + 60 \<le> 9999"
    by simp_all
  show ?thesis
    using h cycle_periodic [OF h, of cls_initial] by blast
qed

section \<open>The table\<close>

subsection \<open>Splitting and stripping\<close>

lemma split_from_no_sep:
  "sep \<notin> set r \<Longrightarrow> split_from sep cur r = [rev cur @ r]"
  by (induction r arbitrary: cur) auto

lemma split_from_append:
  "sep \<notin> set r \<Longrightarrow> split_from sep cur (r @ sep # rest) = (rev cur @ r) # split_from sep [] rest"
  by (induction r arbitrary: cur) auto

lemma split_join:
  assumes "\<forall>l\<in>set ls. sep \<notin> set l" and "sep \<notin> set ind" and "sep \<notin> set pre" and "ls \<noteq> []"
  shows "split_from sep [] (pre @ str_join (sep # ind) ls) = (pre @ hd ls) # map (\<lambda>l. ind @ l) (tl ls)"
  using assms
proof (induction ls arbitrary: pre)
  case Nil
  then show ?case by simp
next
  case (Cons x ls)
  show ?case
  proof (cases ls)
    case Nil
    with Cons.prems show ?thesis by (simp add: split_from_no_sep)
  next
    case (Cons y ys)
    have "split_from sep [] ((pre @ x) @ sep # ind @ str_join (sep # ind) ls)
          = (pre @ x) # split_from sep [] (ind @ str_join (sep # ind) ls)"
      using Cons.prems split_from_append [of sep "pre @ x" "[]"] by simp
    moreover have "split_from sep [] (ind @ str_join (sep # ind) ls)
          = (ind @ hd ls) # map (\<lambda>l. ind @ l) (tl ls)"
      using Cons.prems Cons by (intro Cons.IH) auto
    ultimately show ?thesis using Cons by simp
  qed
qed

lemma strip_core:
  assumes "xs \<noteq> []" and "\<not> P (hd xs)" and "\<not> P (last xs)"
  shows "rev (dropWhile P (rev (dropWhile P xs))) = xs"
proof -
  have "dropWhile P xs = xs"
    using assms(1,2) by (cases xs) auto
  moreover have "dropWhile P (rev xs) = rev xs"
    using assms(1,3) by (cases xs rule: rev_cases) auto
  ultimately show ?thesis by simp
qed

lemma strip_pad:
  assumes "\<forall>c\<in>set a. P c" and "\<forall>c\<in>set b. P c"
  shows "rev (dropWhile P (rev (dropWhile P (a @ xs @ b)))) = rev (dropWhile P (rev (dropWhile P xs)))"
proof -
  have 1: "dropWhile P (a @ ys) = dropWhile P ys" for ys
    using assms(1) by (simp add: dropWhile_append)
  have 2: "dropWhile P (rev b @ ys) = dropWhile P ys" for ys
    using assms(2) by (simp add: dropWhile_append)
  show ?thesis
  proof (cases "\<forall>c\<in>set xs. P c")
    case True
    then have l: "dropWhile P (a @ xs @ b) = []"
      using assms by auto
    have r: "dropWhile P xs = []"
      using True by auto
    show ?thesis unfolding l r by simp
  next
    case False
    then have "dropWhile P (xs @ b) = dropWhile P xs @ b"
      by (auto simp: dropWhile_append)
    then show ?thesis by (simp add: 1 2)
  qed
qed

lemma table_as_join:
  "ls \<noteq> [] \<Longrightarrow> concat (map (\<lambda>l. ind @ l @ [nl]) ls) @ ind = ind @ str_join (nl # ind) ls @ nl # ind"
  by (induction "nl # ind" ls rule: str_join.induct) auto

lemma hd_str_join: "ls \<noteq> [] \<Longrightarrow> hd ls \<noteq> [] \<Longrightarrow> hd (str_join sep ls) = hd (hd ls)"
  by (induction sep ls rule: str_join.induct) auto

lemma str_join_nonempty_last: "ls \<noteq> [] \<Longrightarrow> last ls \<noteq> [] \<Longrightarrow> str_join sep ls \<noteq> []"
  by (induction sep ls rule: str_join.induct) auto

lemma last_str_join: "ls \<noteq> [] \<Longrightarrow> last ls \<noteq> [] \<Longrightarrow> last (str_join sep ls) = last (last ls)"
  by (induction sep ls rule: str_join.induct) (auto simp: str_join_nonempty_last)

lemma str_join_nonempty: "ls \<noteq> [] \<Longrightarrow> hd ls \<noteq> [] \<Longrightarrow> str_join sep ls \<noteq> []"
  by (induction sep ls rule: str_join.induct) auto

lemma str_strip_pad:
  assumes "\<forall>c\<in>set a. str_isspace c" and "\<forall>c\<in>set b. str_isspace c"
  shows "str_strip (a @ xs @ b) = str_strip xs"
  unfolding str_strip_def using assms by (rule strip_pad)

lemma str_strip_id:
  "xs \<noteq> [] \<Longrightarrow> \<not> str_isspace (hd xs) \<Longrightarrow> \<not> str_isspace (last xs) \<Longrightarrow> str_strip xs = xs"
  unfolding str_strip_def by (rule strip_core)

subsection \<open>The sixty lines\<close>

lemma table_lines_check: "map line_check table_lines = map Some [1..60]"
  by (simp add: table_lines_def ascii_def line_check_def line_key_def parse_line_def
      str_strip_def str_isspace_def str_split_def int_of_str_def int_isspace_def
      unsigned_value_def decimal_def decimal_zeros_def upto_rec1 Let_def)

lemma table_lines_ends: "text_ends table_lines = Some (0x31, 0x33)"
  by (simp add: table_lines_def ascii_def text_ends_def)

lemma update_fresh: "k \<notin> fst ` set al \<Longrightarrow> AList.update k v al = al @ [(k, v)]"
  by (induction al) auto

lemma parse_line_raises: "parse_line l = Inl k \<Longrightarrow> k = ValueError \<or> k = IndexError"
  by (auto simp: parse_line_def Let_def split: if_splits option.splits)

lemma parse_line_entry:
  assumes "parse_line l = Inr (k, e)"
  shows "\<exists>hanja n1 n2 n3 n4 n5.
           e = [(ascii ''chi'', [n1, hanja]), (ascii ''kor'', [n2, hanja]),
                (ascii ''jap'', [n3, hanja]), (ascii ''viet'', [n4, hanja]),
                (ascii ''eng'', [n5, hanja])]"
  using assms by (auto simp: parse_line_def Let_def split: if_splits option.splits)

lemma indent_blank: "\<forall>c\<in>set indent. str_isspace c"
  by (simp add: indent_def ascii_def str_isspace_def)

lemma loop_body_indent: "loop_body (indent @ l) = loop_body l"
proof -
  have "str_strip (indent @ l @ []) = str_strip l"
    by (rule str_strip_pad) (simp_all add: indent_blank)
  then have s: "str_strip (indent @ l) = str_strip l"
    by simp
  show ?thesis
    unfolding loop_body_def parse_line_def s by (rule refl)
qed

lemma fold_loop_body:
  assumes "map parse_line ls = map Inr kvs" and "distinct (map fst (al @ kvs))"
  shows "fold loop_body ls al = al @ kvs"
  using assms
proof (induction ls arbitrary: al kvs)
  case Nil
  then show ?case by simp
next
  case (Cons l ls)
  then obtain kv kvs' where kvs: "kvs = kv # kvs'" and l: "parse_line l = Inr kv"
    and ls: "map parse_line ls = map Inr kvs'"
    by (cases kvs) auto
  have fresh: "fst kv \<notin> fst ` set al"
    using Cons.prems(2) kvs by auto
  have "loop_body l al = al @ [kv]"
    using l fresh by (cases kv) (simp add: loop_body_def update_fresh)
  moreover have "fold loop_body ls (al @ [kv]) = (al @ [kv]) @ kvs'"
    using ls Cons.prems(2) kvs by (intro Cons.IH) auto
  ultimately show ?case using kvs by simp
qed

lemma line_check_map:
  "map line_check ls = map Some ks \<Longrightarrow> map line_key ls = map Some ks \<and> (\<forall>l\<in>set ls. 10 \<notin> set l)"
  by (induction ls arbitrary: ks) (auto simp: line_check_def split: if_splits)

lemma line_key_map:
  "map line_key ls = map Some ks \<Longrightarrow> \<exists>kvs. map parse_line ls = map Inr kvs \<and> map fst kvs = ks"
proof (induction ls arbitrary: ks)
  case Nil
  then show ?case by simp
next
  case (Cons l ls)
  then obtain k ks' where ks: "ks = k # ks'" and k: "line_key l = Some k"
    and rest: "map line_key ls = map Some ks'"
    by (cases ks) auto
  from k obtain e where "parse_line l = Inr (k, e)"
    by (auto simp: line_key_def split: sum.splits)
  moreover from Cons.IH [OF rest] obtain kvs
    where "map parse_line ls = map Inr kvs" and "map fst kvs = ks'"
    by blast
  ultimately have "map parse_line (l # ls) = map Inr ((k, e) # kvs) \<and> map fst ((k, e) # kvs) = ks"
    using ks by simp
  then show ?case by blast
qed

lemma table_lines_length: "length table_lines = 60"
proof -
  have "length (map line_check table_lines) = length (map Some [1..60::int])"
    by (simp only: table_lines_check)
  then show ?thesis by simp
qed

lemma str_strip_table: "str_strip table = str_join (10 # indent) table_lines"
proof -
  let ?core = "str_join (10 # indent) table_lines"
  have ne: "table_lines \<noteq> []"
    using table_lines_length by auto
  have ends: "table_lines ! 0 \<noteq> []" "table_lines ! 59 \<noteq> []"
    "hd (table_lines ! 0) = 0x31" "last (table_lines ! 59) = 0x33"
    using table_lines_ends by (auto simp: text_ends_def split: if_splits)
  have h: "hd table_lines = table_lines ! 0"
    using ne by (simp add: hd_conv_nth)
  have l: "last table_lines = table_lines ! 59"
    using ne table_lines_length by (simp add: last_conv_nth)
  have t: "table = indent @ ?core @ (10 # indent)"
    unfolding table_def using ne by (simp add: table_as_join)
  have "\<forall>c\<in>set (10 # indent). str_isspace c"
    using indent_blank by (simp add: str_isspace_def)
  then have "str_strip (indent @ ?core @ (10 # indent)) = str_strip ?core"
    using indent_blank by (intro str_strip_pad)
  then have "str_strip table = str_strip ?core"
    by (simp only: t)
  moreover have "?core \<noteq> []"
    using ne ends h by (simp add: str_join_nonempty)
  moreover have "\<not> str_isspace (hd ?core)"
    using ne ends h by (simp add: hd_str_join str_isspace_def)
  moreover have "\<not> str_isspace (last ?core)"
    using ne ends l by (simp add: last_str_join str_isspace_def)
  ultimately show ?thesis by (simp add: str_strip_id)
qed

lemma get_year_lines: "get_year = fold loop_body table_lines []"
proof -
  have ne: "table_lines \<noteq> []"
    using table_lines_length by auto
  have nl: "\<forall>l\<in>set table_lines. 10 \<notin> set l"
    using line_check_map [OF table_lines_check] by blast
  have "10 \<notin> set indent"
    by (simp add: indent_def ascii_def)
  then have "split_from 10 [] ([] @ str_join (10 # indent) table_lines)
             = ([] @ hd table_lines) # map (\<lambda>l. indent @ l) (tl table_lines)"
    using nl ne by (intro split_join) auto
  then have "str_split (str_strip table) 10 = hd table_lines # map (\<lambda>l. indent @ l) (tl table_lines)"
    by (simp add: str_split_def str_strip_table)
  moreover have "fold loop_body (map (\<lambda>l. indent @ l) ls) al = fold loop_body ls al" for ls al
    by (induction ls arbitrary: al) (simp_all add: loop_body_indent)
  ultimately have "get_year = fold loop_body (hd table_lines # tl table_lines) []"
    by (simp add: get_year_def)
  then show ?thesis using ne by simp
qed

lemma get_year_parsed: "map parse_line table_lines = map Inr get_year \<and> map fst get_year = [1..60]"
proof -
  have "map line_key table_lines = map Some [1..60]"
    using line_check_map [OF table_lines_check] by blast
  then obtain kvs where kvs: "map parse_line table_lines = map Inr kvs" "map fst kvs = [1..60]"
    using line_key_map by blast
  then have "fold loop_body table_lines [] = [] @ kvs"
    by (intro fold_loop_body) auto
  then show ?thesis using kvs by (simp add: get_year_lines)
qed

lemma get_year_keys: "map fst get_year = [1..60]"
  using get_year_parsed by blast

lemma get_year_entry:
  assumes "(k, e) \<in> set get_year"
  shows "\<exists>hanja n1 n2 n3 n4 n5.
           e = [(ascii ''chi'', [n1, hanja]), (ascii ''kor'', [n2, hanja]),
                (ascii ''jap'', [n3, hanja]), (ascii ''viet'', [n4, hanja]),
                (ascii ''eng'', [n5, hanja])]"
proof -
  have "Inr (k, e) \<in> set (map parse_line table_lines)"
    using assms get_year_parsed by simp
  then obtain l where "parse_line l = Inr (k, e)"
    by auto
  then show ?thesis by (rule parse_line_entry)
qed


lemma table_lines_41_42:
  "map parse_line (take 2 (drop 40 table_lines)) = [Inr (41, entry_41), Inr (42, entry_42)]"
  by (simp add: table_lines_def ascii_def parse_line_def entry_41_def entry_42_def
      str_strip_def str_isspace_def str_split_def int_of_str_def int_isspace_def
      unsigned_value_def decimal_def decimal_zeros_def Let_def)

lemma get_year_distinct: "distinct (map fst get_year)"
  by (simp add: get_year_keys)

lemma get_year_41_42: "map_of get_year 41 = Some entry_41 \<and> map_of get_year 42 = Some entry_42"
proof -
  have "(map Inr (take 2 (drop 40 get_year)) :: (exc_class + int \<times> entry) list)
        = take 2 (drop 40 (map Inr get_year))"
    by (simp add: take_map drop_map)
  also have "\<dots> = take 2 (drop 40 (map parse_line table_lines))"
    using get_year_parsed by simp
  also have "\<dots> = map parse_line (take 2 (drop 40 table_lines))"
    by (simp add: take_map drop_map)
  also have "\<dots> = map Inr [(41, entry_41), (42, entry_42)]"
    by (simp add: table_lines_41_42)
  finally have "(map Inr (take 2 (drop 40 get_year)) :: (exc_class + int \<times> entry) list)
        = map Inr [(41, entry_41), (42, entry_42)]" .
  then have "take 2 (drop 40 get_year) = [(41, entry_41), (42, entry_42)]"
    by (simp only: inj_map_eq_map [OF inj_Inr])
  then have "(41, entry_41) \<in> set (take 2 (drop 40 get_year))"
    and "(42, entry_42) \<in> set (take 2 (drop 40 get_year))"
    by simp_all
  then have "(41, entry_41) \<in> set get_year" and "(42, entry_42) \<in> set get_year"
    by (auto dest: in_set_takeD in_set_dropD)
  then show ?thesis
    using get_year_distinct by simp
qed

lemma get_year_defined:
  assumes "1 \<le> k" and "k \<le> 60"
  shows "\<exists>e. map_of get_year k = Some e \<and> (k, e) \<in> set get_year"
proof -
  have "k \<in> set (map fst get_year)"
    using assms by (simp add: get_year_keys)
  then obtain e where "(k, e) \<in> set get_year"
    by auto
  then show ?thesis
    using get_year_distinct by auto
qed

lemma get_year_undefined: "k < 1 \<or> 60 < k \<Longrightarrow> map_of get_year k = None"
proof -
  assume "k < 1 \<or> 60 < k"
  then have "k \<notin> set (map fst get_year)"
    by (auto simp: get_year_keys)
  then show ?thesis
    by (simp add: map_of_eq_None_iff)
qed

text \<open>
  Claim C2. The table \<^verbatim>\<open>_get_year\<close> builds has sixty entries; its keys are the numbers
  1 to 60, each once; every entry has the five language codes \<^verbatim>\<open>chi\<close>, \<^verbatim>\<open>kor\<close>,
  \<^verbatim>\<open>jap\<close>, \<^verbatim>\<open>viet\<close>, \<^verbatim>\<open>eng\<close> and no other, each with a two-element list of a name
  and the hanja, and the hanja is the same for the five languages of an entry. It is the
  table the class holds after the first successful construction.
\<close>

theorem table_shape:
  "length get_year = 60 \<and> distinct (map fst get_year) \<and> set (map fst get_year) = {1..60} \<and>
   (\<forall>(k, e)\<in>set get_year.
      map fst e = [ascii ''chi'', ascii ''kor'', ascii ''jap'', ascii ''viet'', ascii ''eng''] \<and>
      (\<exists>hanja. \<forall>(code, v)\<in>set e. \<exists>name. v = [name, hanja])) \<and>
   (\<forall>v self c'. init v cls_initial = (Inr self, c') \<longrightarrow> TABLE c' = Some get_year)"
proof -
  have "length (map fst get_year) = 60"
    by (simp only: get_year_keys) simp
  then have "length get_year = 60"
    by simp
  moreover have "set (map fst get_year) = {1..60}"
    by (simp only: get_year_keys set_upto)
  moreover have "\<forall>(k, e)\<in>set get_year.
      map fst e = [ascii ''chi'', ascii ''kor'', ascii ''jap'', ascii ''viet'', ascii ''eng''] \<and>
      (\<exists>hanja. \<forall>(code, v)\<in>set e. \<exists>name. v = [name, hanja])"
  proof (clarify, intro conjI)
    fix k e
    assume "(k, e) \<in> set get_year"
    then obtain hanja n1 n2 n3 n4 n5 where e:
      "e = [(ascii ''chi'', [n1, hanja]), (ascii ''kor'', [n2, hanja]),
            (ascii ''jap'', [n3, hanja]), (ascii ''viet'', [n4, hanja]),
            (ascii ''eng'', [n5, hanja])]"
      using get_year_entry by blast
    show "map fst e = [ascii ''chi'', ascii ''kor'', ascii ''jap'', ascii ''viet'', ascii ''eng'']"
      by (simp add: e)
    have "\<forall>(code, v)\<in>set e. \<exists>name. v = [name, hanja]"
      by (simp add: e)
    then show "\<exists>hanja. \<forall>(code, v)\<in>set e. \<exists>name. v = [name, hanja]" ..
  qed
  moreover have "\<forall>v self c'. init v cls_initial = (Inr self, c') \<longrightarrow> TABLE c' = Some get_year"
    by (auto simp: cls_initial_def dest!: init_Inr)
  ultimately show ?thesis
    using get_year_distinct by blast
qed

theorem table_shape_witness:
  "(41, entry_41) \<in> set get_year \<and>
   map fst entry_41 = [ascii ''chi'', ascii ''kor'', ascii ''jap'', ascii ''viet'', ascii ''eng''] \<and>
   (\<exists>hanja. \<forall>(code, v)\<in>set entry_41. \<exists>name. v = [name, hanja]) \<and>
   init (PyInt 2024) cls_initial =
     (Inr \<lparr>gregorian_year = 2024, year_in_cycle = 41\<rparr>, \<lparr>TABLE = Some get_year\<rparr>)"
proof -
  have m: "(41, entry_41) \<in> set get_year"
    using get_year_41_42 by (blast dest: map_of_SomeD)
  have i: "init (PyInt 2024) cls_initial =
      (Inr \<lparr>gregorian_year = 2024, year_in_cycle = 41\<rparr>, \<lparr>TABLE = Some get_year\<rparr>)"
    by (simp add: init_in_range cls_initial_def)
  note s = table_shape [THEN conjunct2, THEN conjunct2, THEN conjunct2, THEN conjunct1]
  from s m have "case (41::int, entry_41) of (k, e) \<Rightarrow>
      map fst e = [ascii ''chi'', ascii ''kor'', ascii ''jap'', ascii ''viet'', ascii ''eng''] \<and>
      (\<exists>hanja. \<forall>(code, v)\<in>set e. \<exists>name. v = [name, hanja])"
    by (rule bspec)
  then have "map fst entry_41 = [ascii ''chi'', ascii ''kor'', ascii ''jap'', ascii ''viet'', ascii ''eng''] \<and>
      (\<exists>hanja. \<forall>(code, v)\<in>set entry_41. \<exists>name. v = [name, hanja])"
    by (simp only: prod.case)
  with m i show ?thesis by (intro conjI) (simp_all only:)
qed

subsection \<open>Looking names up\<close>

lemma supported_iff:
  "code \<in> SUPPORTED_LANGUAGES \<longleftrightarrow>
     code \<in> {ascii ''chi'', ascii ''kor'', ascii ''jap'', ascii ''viet'', ascii ''eng''}"
  by (simp add: SUPPORTED_LANGUAGES_def)

lemma supported_sorted:
  "sorted_list_of_set SUPPORTED_LANGUAGES =
     [ascii ''chi'', ascii ''eng'', ascii ''jap'', ascii ''kor'', ascii ''viet'']"
  unfolding SUPPORTED_LANGUAGES_def
  by (rule sorted_distinct_set_unique) (auto simp: ascii_def)

lemma lang_unsupported:
  assumes "code \<notin> SUPPORTED_LANGUAGES"
  shows "lang c self code =
           Inl (Exc ValueError (Some (ascii ''Language '' @ [39] @ code @ [39] @
             ascii '' not supported. Choose from: chi, eng, jap, kor, viet'')))"
proof -
  have "ascii '' not supported. Choose from: '' @
          str_join (ascii '', '') (sorted_list_of_set SUPPORTED_LANGUAGES)
        = ascii '' not supported. Choose from: chi, eng, jap, kor, viet''"
    by (simp add: supported_sorted ascii_def)
  then show ?thesis
    using assms by (simp add: lang_def)
qed

lemma lang_supported:
  assumes "code \<in> SUPPORTED_LANGUAGES" and "TABLE c = Some t"
  shows "lang c self code = table_lookup t (year_in_cycle self) code"
  using assms by (simp add: lang_def)

lemma entry_lookup:
  assumes "e = [(ascii ''chi'', [n1, hanja]), (ascii ''kor'', [n2, hanja]),
                (ascii ''jap'', [n3, hanja]), (ascii ''viet'', [n4, hanja]),
                (ascii ''eng'', [n5, hanja])]"
    and "code \<in> SUPPORTED_LANGUAGES"
  shows "\<exists>name. map_of e code = Some [name, hanja]"
  using assms by (auto simp: SUPPORTED_LANGUAGES_def ascii_def)

text \<open>
  Claim C3. The instance for 2024 returns the name \<^verbatim>\<open>ji-chen\<close> (with its two
  diacritics, code points \<^verbatim>\<open>0x1CE\<close> and \<^verbatim>\<open>0xE9\<close>) for \<^verbatim>\<open>chi\<close> and
  \<^verbatim>\<open>Yang Wood Dragon\<close> for \<^verbatim>\<open>eng\<close>, each with the hanja \<^verbatim>\<open>0x7532 0x8FB0\<close>; the instance
  for 2025 returns \<^verbatim>\<open>Yin Wood Snake\<close> with the hanja \<^verbatim>\<open>0x4E59 0x5DF3\<close> for \<^verbatim>\<open>eng\<close>.
\<close>

theorem names_2024_2025:
  assumes "wf_cls c"
  shows "\<exists>a ca b cb.
           init (PyInt 2024) c = (Inr a, ca) \<and> init (PyInt 2025) c = (Inr b, cb) \<and>
           lang ca a (ascii ''chi'') =
             Inr [ascii ''ji'' @ [0x1CE] @ ascii ''-ch'' @ [0xE9] @ ascii ''n'', [0x7532, 0x8FB0]] \<and>
           lang ca a (ascii ''eng'') = Inr [ascii ''Yang Wood Dragon'', [0x7532, 0x8FB0]] \<and>
           lang cb b (ascii ''eng'') = Inr [ascii ''Yin Wood Snake'', [0x4E59, 0x5DF3]]"
proof -
  let ?c' = "if TABLE c = None then c\<lparr>TABLE := Some get_year\<rparr> else c"
  let ?a = "\<lparr>gregorian_year = 2024, year_in_cycle = 41\<rparr>"
  let ?b = "\<lparr>gregorian_year = 2025, year_in_cycle = 42\<rparr>"
  have t: "TABLE ?c' = Some get_year"
    using assms by (auto simp: wf_cls_def)
  have "init (PyInt 2024) c = (Inr ?a, ?c')" and "init (PyInt 2025) c = (Inr ?b, ?c')"
    by (simp_all add: init_in_range)
  moreover have "lang ?c' ?a (ascii ''chi'') =
      Inr [ascii ''ji'' @ [0x1CE] @ ascii ''-ch'' @ [0xE9] @ ascii ''n'', [0x7532, 0x8FB0]]"
    by (simp add: lang_supported [OF _ t] supported_iff table_lookup_def get_year_41_42 entry_41_def)
  moreover have "lang ?c' ?a (ascii ''eng'') = Inr [ascii ''Yang Wood Dragon'', [0x7532, 0x8FB0]]"
    by (simp add: lang_supported [OF _ t] supported_iff table_lookup_def get_year_41_42 entry_41_def
        ascii_def)
  moreover have "lang ?c' ?b (ascii ''eng'') = Inr [ascii ''Yin Wood Snake'', [0x4E59, 0x5DF3]]"
    by (simp add: lang_supported [OF _ t] supported_iff table_lookup_def get_year_41_42 entry_42_def
        ascii_def)
  ultimately show ?thesis by blast
qed

theorem names_2024_2025_witness:
  "wf_cls cls_initial \<and>
   (\<exists>a ca. init (PyInt 2024) cls_initial = (Inr a, ca) \<and>
      lang ca a (ascii ''eng'') = Inr [ascii ''Yang Wood Dragon'', [0x7532, 0x8FB0]])"
proof -
  have h: "wf_cls cls_initial"
    by (simp add: wf_cls_def cls_initial_def)
  show ?thesis
    using h names_2024_2025 [OF h] by blast
qed

text \<open>
  Claim C4. On an instance that was constructed successfully, \<^verbatim>\<open>lang(code)\<close> succeeds
  exactly for the five codes \<^verbatim>\<open>chi\<close>, \<^verbatim>\<open>kor\<close>, \<^verbatim>\<open>jap\<close>, \<^verbatim>\<open>viet\<close>, \<^verbatim>\<open>eng\<close> (compared as
  they are, so case matters) and then returns the list of name and hanja that the table
  holds for the position of the instance; for any other code it raises the
  \<^verbatim>\<open>ValueError\<close> whose message quotes the code and lists the five codes in sorted order.
\<close>

theorem lang_codes:
  assumes "wf_cls c" and "init v c = (Inr self, c')"
  shows "(code \<in> {ascii ''chi'', ascii ''kor'', ascii ''jap'', ascii ''viet'', ascii ''eng''} \<longrightarrow>
            (\<exists>e name hanja. map_of get_year (year_in_cycle self) = Some e \<and>
               map_of e code = Some [name, hanja] \<and> lang c' self code = Inr [name, hanja])) \<and>
         (code \<notin> {ascii ''chi'', ascii ''kor'', ascii ''jap'', ascii ''viet'', ascii ''eng''} \<longrightarrow>
            lang c' self code =
              Inl (Exc ValueError (Some (ascii ''Language '' @ [39] @ code @ [39] @
                ascii '' not supported. Choose from: chi, eng, jap, kor, viet''))))"
proof (intro conjI impI)
  assume "code \<in> {ascii ''chi'', ascii ''kor'', ascii ''jap'', ascii ''viet'', ascii ''eng''}"
  then have s: "code \<in> SUPPORTED_LANGUAGES"
    by (simp only: supported_iff)
  from init_Inr [OF assms(2)] obtain y where y: "4 \<le> y" "y \<le> 9999"
    and self: "self = \<lparr>gregorian_year = y, year_in_cycle = (y - 4) mod 60 + 1\<rparr>"
    and c': "c' = (if TABLE c = None then c\<lparr>TABLE := Some get_year\<rparr> else c)"
    by blast
  have t: "TABLE c' = Some get_year"
    using assms(1) c' by (auto simp: wf_cls_def)
  have "0 \<le> (y - 4) mod 60" and "(y - 4) mod 60 < 60"
    by simp_all
  then have "1 \<le> year_in_cycle self" and "year_in_cycle self \<le> 60"
    by (simp_all add: self)
  then obtain e where e: "map_of get_year (year_in_cycle self) = Some e"
    and "(year_in_cycle self, e) \<in> set get_year"
    using get_year_defined by blast
  then obtain hanja n1 n2 n3 n4 n5 where shape:
    "e = [(ascii ''chi'', [n1, hanja]), (ascii ''kor'', [n2, hanja]),
          (ascii ''jap'', [n3, hanja]), (ascii ''viet'', [n4, hanja]),
          (ascii ''eng'', [n5, hanja])]"
    using get_year_entry by blast
  from entry_lookup [OF shape s] obtain name where n: "map_of e code = Some [name, hanja]" ..
  have "lang c' self code = Inr [name, hanja]"
    by (simp add: lang_supported [OF s t] table_lookup_def e n)
  with e n show "\<exists>e name hanja. map_of get_year (year_in_cycle self) = Some e \<and>
      map_of e code = Some [name, hanja] \<and> lang c' self code = Inr [name, hanja]"
    by blast
next
  assume "code \<notin> {ascii ''chi'', ascii ''kor'', ascii ''jap'', ascii ''viet'', ascii ''eng''}"
  then have "code \<notin> SUPPORTED_LANGUAGES"
    by (simp only: supported_iff not_False_eq_True)
  then show "lang c' self code =
      Inl (Exc ValueError (Some (ascii ''Language '' @ [39] @ code @ [39] @
        ascii '' not supported. Choose from: chi, eng, jap, kor, viet'')))"
    by (rule lang_unsupported)
qed

theorem lang_codes_witness:
  "wf_cls cls_initial \<and>
   init (PyInt 2024) cls_initial =
     (Inr \<lparr>gregorian_year = 2024, year_in_cycle = 41\<rparr>, \<lparr>TABLE = Some get_year\<rparr>) \<and>
   lang \<lparr>TABLE = Some get_year\<rparr> \<lparr>gregorian_year = 2024, year_in_cycle = 41\<rparr> (ascii ''bogus'') =
     Inl (Exc ValueError (Some
       (ascii ''Language '' @ [39] @ ascii ''bogus'' @ [39] @ ascii '' not supported. Choose from: chi, eng, jap, kor, viet''))) \<and>
   lang \<lparr>TABLE = Some get_year\<rparr> \<lparr>gregorian_year = 2024, year_in_cycle = 41\<rparr> (ascii ''CHI'') =
     Inl (Exc ValueError (Some
       (ascii ''Language '' @ [39] @ ascii ''CHI'' @ [39] @ ascii '' not supported. Choose from: chi, eng, jap, kor, viet''))) \<and>
   (\<exists>v. lang \<lparr>TABLE = Some get_year\<rparr> \<lparr>gregorian_year = 2024, year_in_cycle = 41\<rparr> (ascii ''kor'') = Inr v)"
proof -
  have h: "wf_cls cls_initial"
    by (simp add: wf_cls_def cls_initial_def)
  have i: "init (PyInt 2024) cls_initial =
      (Inr \<lparr>gregorian_year = 2024, year_in_cycle = 41\<rparr>, \<lparr>TABLE = Some get_year\<rparr>)"
    by (simp add: init_in_range cls_initial_def)
  have b: "ascii ''bogus'' \<notin> {ascii ''chi'', ascii ''kor'', ascii ''jap'', ascii ''viet'', ascii ''eng''}"
    by (simp add: ascii_def)
  have u: "ascii ''CHI'' \<notin> {ascii ''chi'', ascii ''kor'', ascii ''jap'', ascii ''viet'', ascii ''eng''}"
    by (simp add: ascii_def)
  have k: "ascii ''kor'' \<in> {ascii ''chi'', ascii ''kor'', ascii ''jap'', ascii ''viet'', ascii ''eng''}"
    by simp
  show ?thesis
    using h i b u k lang_codes [OF h i, of "ascii ''bogus''"] lang_codes [OF h i, of "ascii ''CHI''"]
      lang_codes [OF h i, of "ascii ''kor''"]
    by blast
qed

text \<open>
  Claim C9. A lookup in the table at a position outside 1 to 60 is a defined failure:
  the dictionary subscript raises \<^verbatim>\<open>KeyError\<close>, whatever the code, and so does
  \<^verbatim>\<open>lang\<close> on an instance whose position was set outside the range. \<^verbatim>\<open>KeyError\<close> is
  neither the \<^verbatim>\<open>TypeError\<close> nor the \<^verbatim>\<open>ValueError\<close> that the three other failures are.
  No instance that \<^verbatim>\<open>__init__\<close> returns has such a position.
\<close>

theorem lookup_out_of_range:
  assumes "position < 1 \<or> 60 < position"
  shows "table_lookup get_year position code = Inl (Exc KeyError None) \<and>
         (TABLE c = Some get_year \<and> year_in_cycle self = position \<and> code \<in> SUPPORTED_LANGUAGES \<longrightarrow>
            lang c self code = Inl (Exc KeyError None)) \<and>
         (\<forall>m. Exc KeyError None \<noteq> Exc TypeError m \<and> Exc KeyError None \<noteq> Exc ValueError m) \<and>
         (\<forall>v c0 made c1. init v c0 = (Inr made, c1) \<longrightarrow> year_in_cycle made \<noteq> position)"
proof -
  have "table_lookup get_year position code = Inl (Exc KeyError None)"
    using assms by (simp add: table_lookup_def get_year_undefined)
  moreover have "year_in_cycle made \<noteq> position" if "init v c0 = (Inr made, c1)" for v c0 made c1
  proof -
    from init_Inr [OF that] obtain y
      where "made = \<lparr>gregorian_year = y, year_in_cycle = (y - 4) mod 60 + 1\<rparr>"
      by blast
    moreover have "0 \<le> (y - 4) mod 60" and "(y - 4) mod 60 < 60"
      by simp_all
    ultimately show ?thesis
      using assms by auto
  qed
  ultimately show ?thesis
    by (auto simp: lang_supported)
qed

theorem lookup_out_of_range_witness:
  "((61::int) < 1 \<or> (60::int) < 61) \<and>
   table_lookup get_year 61 (ascii ''eng'') = Inl (Exc KeyError None) \<and>
   lang \<lparr>TABLE = Some get_year\<rparr> \<lparr>gregorian_year = 2024, year_in_cycle = 61\<rparr> (ascii ''eng'') =
     Inl (Exc KeyError None)"
proof -
  have h: "(61::int) < 1 \<or> (60::int) < 61"
    by simp
  have s: "ascii ''eng'' \<in> SUPPORTED_LANGUAGES"
    by (simp add: SUPPORTED_LANGUAGES_def)
  show ?thesis
    using h s
      lookup_out_of_range [OF h, of "ascii ''eng''" "\<lparr>TABLE = Some get_year\<rparr>"
        "\<lparr>gregorian_year = 2024, year_in_cycle = 61\<rparr>"]
    by simp
qed

lemma lang_exec_frame: "lang_exec code (c, self) = (lang c self code, (c, self))"
  by (simp add: lang_exec_def lang_def stmt_bind_def stmt_raise_def stmt_return_def
      read_TABLE_def read_year_in_cycle_def split: option.splits sum.splits)

text \<open>
  Claim C10. A sequence of \<^verbatim>\<open>lang\<close> calls on an instance, whether the calls return or
  raise, leaves the instance (its year and its position) and the class state (the shared
  table) as they were; each call gives what \<^verbatim>\<open>lang\<close> gives in the first state, so two
  calls with the same code give the same result.
\<close>

theorem lang_frame:
  "run_lang codes (c, self) = (map (lang c self) codes, (c, self)) \<and>
   (\<forall>i j. i < length codes \<and> j < length codes \<and> codes ! i = codes ! j \<longrightarrow>
      fst (run_lang codes (c, self)) ! i = fst (run_lang codes (c, self)) ! j)"
proof -
  have r: "run_lang codes (c, self) = (map (lang c self) codes, (c, self))"
    by (induction codes) (simp_all add: lang_exec_frame)
  then show ?thesis by simp
qed

theorem lang_frame_witness:
  "init (PyInt 2024) cls_initial =
     (Inr \<lparr>gregorian_year = 2024, year_in_cycle = 41\<rparr>, \<lparr>TABLE = Some get_year\<rparr>) \<and>
   run_lang [ascii ''eng'', ascii ''bogus'', ascii ''eng'']
     (\<lparr>TABLE = Some get_year\<rparr>, \<lparr>gregorian_year = 2024, year_in_cycle = 41\<rparr>) =
   ([Inr [ascii ''Yang Wood Dragon'', [0x7532, 0x8FB0]],
     Inl (Exc ValueError (Some (ascii ''Language '' @ [39] @ ascii ''bogus'' @ [39] @
        ascii '' not supported. Choose from: chi, eng, jap, kor, viet''))),
     Inr [ascii ''Yang Wood Dragon'', [0x7532, 0x8FB0]]],
    (\<lparr>TABLE = Some get_year\<rparr>, \<lparr>gregorian_year = 2024, year_in_cycle = 41\<rparr>))"
proof -
  have i: "init (PyInt 2024) cls_initial =
      (Inr \<lparr>gregorian_year = 2024, year_in_cycle = 41\<rparr>, \<lparr>TABLE = Some get_year\<rparr>)"
    by (simp add: init_in_range cls_initial_def)
  have e: "lang \<lparr>TABLE = Some get_year\<rparr> \<lparr>gregorian_year = 2024, year_in_cycle = 41\<rparr> (ascii ''eng'')
      = Inr [ascii ''Yang Wood Dragon'', [0x7532, 0x8FB0]]"
    by (simp add: lang_supported supported_iff table_lookup_def get_year_41_42 entry_41_def ascii_def)
  have "ascii ''bogus'' \<notin> SUPPORTED_LANGUAGES"
    by (simp add: SUPPORTED_LANGUAGES_def ascii_def)
  then have b: "lang \<lparr>TABLE = Some get_year\<rparr> \<lparr>gregorian_year = 2024, year_in_cycle = 41\<rparr> (ascii ''bogus'')
      = Inl (Exc ValueError (Some (ascii ''Language '' @ [39] @ ascii ''bogus'' @ [39] @
          ascii '' not supported. Choose from: chi, eng, jap, kor, viet'')))"
    by (rule lang_unsupported)
  have "run_lang [ascii ''eng'', ascii ''bogus'', ascii ''eng'']
     (\<lparr>TABLE = Some get_year\<rparr>, \<lparr>gregorian_year = 2024, year_in_cycle = 41\<rparr>) =
   ([Inr [ascii ''Yang Wood Dragon'', [0x7532, 0x8FB0]],
     Inl (Exc ValueError (Some (ascii ''Language '' @ [39] @ ascii ''bogus'' @ [39] @
        ascii '' not supported. Choose from: chi, eng, jap, kor, viet''))),
     Inr [ascii ''Yang Wood Dragon'', [0x7532, 0x8FB0]]],
    (\<lparr>TABLE = Some get_year\<rparr>, \<lparr>gregorian_year = 2024, year_in_cycle = 41\<rparr>))"
    using lang_frame [of "[ascii ''eng'', ascii ''bogus'', ascii ''eng'']" "\<lparr>TABLE = Some get_year\<rparr>"
        "\<lparr>gregorian_year = 2024, year_in_cycle = 41\<rparr>"]
    by (simp add: e b)
  with i show ?thesis by (intro conjI)
qed

section \<open>Years given as text or as floats\<close>

subsection \<open>Reading back what \<^verbatim>\<open>str\<close> writes\<close>

lemma decimal_digit: "0x30 \<le> c \<Longrightarrow> c < 0x3A \<Longrightarrow> decimal c = Some (c - 0x30)"
  by (simp add: decimal_def decimal_zeros_def)

lemma digits_of_step: "\<not> n < 10 \<Longrightarrow> digits_of n = digits_of (n div 10) @ [0x30 + n mod 10]"
  by (subst digits_of.simps) simp

lemma digits_of_nonempty: "digits_of n \<noteq> []"
  by (subst digits_of.simps) simp

lemma digits_of_ascii: "\<forall>c\<in>set (digits_of n). 0x30 \<le> c \<and> c < 0x3A"
proof (induction n rule: digits_of.induct)
  case (1 n)
  show ?case
  proof (cases "n < 10")
    case True
    then show ?thesis by (simp add: digits_of_small)
  next
    case False
    have "n mod 10 < 10"
      by simp
    then have "0x30 + n mod 10 < 0x3A"
      by linarith
    with 1 False show ?thesis
      by (auto simp: digits_of_step)
  qed
qed

lemma digits_value_ascii:
  "\<forall>c\<in>set ds. 0x30 \<le> c \<and> c < 0x3A \<Longrightarrow>
     digits_value acc ds = Some (foldl (\<lambda>a c. 10 * a + (c - 0x30)) acc ds)"
  by (induction ds arbitrary: acc) (auto simp: decimal_digit)

lemma unsigned_value_ascii:
  assumes "ds \<noteq> []" and "\<forall>c\<in>set ds. 0x30 \<le> c \<and> c < 0x3A"
  shows "unsigned_value ds = Some (foldl (\<lambda>a c. 10 * a + (c - 0x30)) 0 ds)"
  using assms by (cases ds) (auto simp: unsigned_value_def decimal_digit digits_value_ascii)

lemma foldl_digits_of: "foldl (\<lambda>a c. 10 * a + (c - 0x30)) 0 (digits_of n) = n"
proof (induction n rule: digits_of.induct)
  case (1 n)
  show ?case
  proof (cases "n < 10")
    case True
    then show ?thesis by (simp add: digits_of_small)
  next
    case False
    with 1 show ?thesis
      by (simp add: digits_of_step)
  qed
qed

lemma unsigned_value_digits_of: "unsigned_value (digits_of n) = Some n"
  by (simp add: unsigned_value_ascii digits_of_nonempty digits_of_ascii foldl_digits_of)

lemma digit_not_space: "0x30 \<le> c \<Longrightarrow> c < 0x3A \<Longrightarrow> \<not> int_isspace c"
  by (auto simp: int_isspace_def str_isspace_def)

lemma int_of_str_digits_of: "int_of_str (digits_of n) = Some (int n)"
proof -
  let ?ds = "digits_of n"
  have "hd ?ds \<in> set ?ds" and "last ?ds \<in> set ?ds"
    using digits_of_nonempty by simp_all
  then have d: "0x30 \<le> hd ?ds \<and> hd ?ds < 0x3A" "0x30 \<le> last ?ds \<and> last ?ds < 0x3A"
    using digits_of_ascii by blast+
  then have "rev (dropWhile int_isspace (rev (dropWhile int_isspace ?ds))) = ?ds"
    using digits_of_nonempty by (intro strip_core) (simp_all add: digit_not_space)
  moreover obtain c r where cr: "?ds = c # r"
    using digits_of_nonempty by (cases ?ds) auto
  moreover have "c \<noteq> 0x2D" and "c \<noteq> 0x2B"
    using d(1) cr by auto
  moreover have "unsigned_value (c # r) = Some n"
    using unsigned_value_digits_of [of n] cr by simp
  ultimately show ?thesis
    by (simp add: int_of_str_def)
qed

lemma int_of_str_minus: "int_of_str (0x2D # digits_of n) = Some (- int n)"
proof -
  let ?s = "0x2D # digits_of n"
  have "0x30 \<le> last (digits_of n) \<and> last (digits_of n) < 0x3A"
    using digits_of_ascii digits_of_nonempty last_in_set by blast
  then have "\<not> int_isspace (last ?s)"
    using digits_of_nonempty by (simp add: digit_not_space)
  moreover have "\<not> int_isspace (hd ?s)"
    by (simp add: int_isspace_def str_isspace_def)
  ultimately have "rev (dropWhile int_isspace (rev (dropWhile int_isspace ?s))) = ?s"
    by (intro strip_core) simp_all
  then show ?thesis
    by (simp add: int_of_str_def unsigned_value_digits_of)
qed

lemma int_of_str_of_int: "int_of_str (str_of_int i) = Some i"
  by (simp add: str_of_int_def int_of_str_digits_of int_of_str_minus)

text \<open>
  Claim C8. For every integer \<open>y\<close> from 4 to 9999, \<^verbatim>\<open>LunarYear(str(y))\<close> succeeds and gives
  the same instance and the same class state as \<^verbatim>\<open>LunarYear(y)\<close>, hence the same stored
  year, the same position and the same result of every \<^verbatim>\<open>lang\<close> call; the text
  \<^verbatim>\<open>2024\<close> behaves as the integer 2024.
\<close>

theorem text_year:
  assumes "4 \<le> y" and "y \<le> 9999"
  shows "init (PyStr (str_of_int y)) c = init (PyInt y) c \<and>
         (\<exists>self c'. init (PyStr (str_of_int y)) c = (Inr self, c') \<and> gregorian_year self = y \<and>
            year_in_cycle self = (y - 4) mod 60 + 1) \<and>
         (\<forall>self c' self' c'' code.
            init (PyStr (str_of_int y)) c = (Inr self, c') \<and> init (PyInt y) c = (Inr self', c'') \<longrightarrow>
            lang c' self code = lang c'' self' code) \<and>
         init (PyStr (ascii ''2024'')) c = init (PyInt 2024) c"
proof -
  have same: "init (PyStr (str_of_int i)) c = init (PyInt i) c" for i
    by (simp add: init_def int_of_str_of_int)
  have "str_of_int 2024 = ascii ''2024''"
    by (simp add: str_of_int_def digits_of.simps ascii_def)
  then have "init (PyStr (ascii ''2024'')) c = init (PyInt 2024) c"
    using same [of 2024] by simp
  moreover have "\<exists>self c'. init (PyStr (str_of_int y)) c = (Inr self, c') \<and> gregorian_year self = y \<and>
      year_in_cycle self = (y - 4) mod 60 + 1"
    using assms by (simp add: same init_in_range)
  moreover have "\<forall>self c' self' c'' code.
      init (PyStr (str_of_int y)) c = (Inr self, c') \<and> init (PyInt y) c = (Inr self', c'') \<longrightarrow>
      lang c' self code = lang c'' self' code"
    by (auto simp: same)
  ultimately show ?thesis
    using same by blast
qed

theorem text_year_witness:
  "(4::int) \<le> 2024 \<and> (2024::int) \<le> 9999 \<and>
   init (PyStr (ascii ''2024'')) cls_initial =
     (Inr \<lparr>gregorian_year = 2024, year_in_cycle = 41\<rparr>, \<lparr>TABLE = Some get_year\<rparr>)"
proof -
  have h: "(4::int) \<le> 2024" "(2024::int) \<le> 9999"
    by simp_all
  have "init (PyInt 2024) cls_initial =
      (Inr \<lparr>gregorian_year = 2024, year_in_cycle = 41\<rparr>, \<lparr>TABLE = Some get_year\<rparr>)"
    by (simp add: init_in_range cls_initial_def)
  then show ?thesis
    using h text_year [OF h, of cls_initial] by simp
qed

subsection \<open>What \<^verbatim>\<open>int\<close> rejects\<close>

lemma in_set_dropWhile: "x \<in> set xs \<Longrightarrow> \<not> P x \<Longrightarrow> x \<in> set (dropWhile P xs)"
  by (induction xs) auto

lemma in_set_stripped:
  assumes "x \<in> set xs" and "\<not> P x"
  shows "x \<in> set (rev (dropWhile P (rev (dropWhile P xs))))"
proof -
  have "x \<in> set (rev (dropWhile P xs))"
    using assms by (simp add: in_set_dropWhile)
  then have "x \<in> set (dropWhile P (rev (dropWhile P xs)))"
    using assms(2) by (rule in_set_dropWhile)
  then show ?thesis by simp
qed

lemma digits_value_bad:
  "c \<in> set cs \<Longrightarrow> decimal c = None \<Longrightarrow> c \<noteq> 0x5F \<Longrightarrow> digits_value acc cs = None"
proof (induction acc cs rule: digits_value.induct)
  case (1 acc)
  then show ?case by simp
next
  case (2 acc x xs)
  show ?case
  proof (cases "x = 0x5F")
    case True
    show ?thesis
    proof (cases xs)
      case Nil
      then show ?thesis using True by simp
    next
      case (Cons d ds)
      show ?thesis
      proof (cases "decimal d")
        case None
        then show ?thesis using True Cons by simp
      next
        case (Some v)
        have "c \<in> set ds"
          using "2.prems" True Cons Some by auto
        then have "digits_value (10 * acc + v) ds = None"
          using "2.IH"(1) [OF True Cons Some] "2.prems" by simp
        then show ?thesis using True Cons Some by simp
      qed
    qed
  next
    case False
    show ?thesis
    proof (cases "decimal x")
      case None
      then show ?thesis using False by simp
    next
      case (Some v)
      have "c \<in> set xs"
        using "2.prems" Some by auto
      then have "digits_value (10 * acc + v) xs = None"
        using "2.IH"(2) [OF False Some] "2.prems" by simp
      then show ?thesis using False Some by simp
    qed
  qed
qed

lemma unsigned_value_bad:
  "c \<in> set cs \<Longrightarrow> decimal c = None \<Longrightarrow> c \<noteq> 0x5F \<Longrightarrow> unsigned_value cs = None"
  by (cases cs) (auto simp: unsigned_value_def digits_value_bad split: option.splits)

lemma non_numeric_rejected:
  assumes "non_numeric s"
  shows "int_of_str s = None"
proof -
  from assms obtain c where c: "c \<in> set s" "decimal c = None" "\<not> int_isspace c"
    "c \<noteq> 0x2B" "c \<noteq> 0x2D" "c \<noteq> 0x5F"
    by (auto simp: non_numeric_def list_ex_iff)
  let ?t = "rev (dropWhile int_isspace (rev (dropWhile int_isspace s)))"
  have t: "c \<in> set ?t"
    using c(1,3) by (rule in_set_stripped)
  show ?thesis
  proof (cases ?t)
    case Nil
    with t show ?thesis by simp
  next
    case (Cons d r)
    have whole: "unsigned_value (d # r) = None"
      using t c(2,6) Cons unsigned_value_bad by metis
    have "unsigned_value r = None" if "d = 0x2D \<or> d = 0x2B"
    proof -
      have "c \<in> set r"
        using t Cons that c(4,5) by auto
      then show ?thesis
        using c(2,6) by (rule unsigned_value_bad)
    qed
    with whole Cons show ?thesis
      by (auto simp: int_of_str_def)
  qed
qed

text \<open>
  A text that \<^verbatim>\<open>int\<close> does not read as an integer (in particular every non-numeric
  text, such as \<^verbatim>\<open>not_a_year\<close>), the value \<^verbatim>\<open>None\<close> and the float NaN are refused
  with the \<^verbatim>\<open>TypeError\<close> whose message names the type of the value, and the class
  state is left as it was.
\<close>

lemma refused_values:
  "(\<not> is_integral (PyStr s) \<longrightarrow>
      init (PyStr s) c = (Inl (Exc TypeError (Some (ascii ''Year must be an integer, got str''))), c)) \<and>
   (non_numeric s \<longrightarrow> \<not> is_integral (PyStr s)) \<and>
   init PyNone c = (Inl (Exc TypeError (Some (ascii ''Year must be an integer, got NoneType''))), c) \<and>
   init (PyFloat NaN) c = (Inl (Exc TypeError (Some (ascii ''Year must be an integer, got float''))), c)"
proof -
  have "init (PyStr s) c = (Inl (Exc TypeError (Some (ascii ''Year must be an integer, got str''))), c)"
    if "\<not> is_integral (PyStr s)"
    using that by (simp add: init_def ascii_def)
  moreover have "\<not> is_integral (PyStr s)" if "non_numeric s"
    using that by (simp add: non_numeric_rejected)
  moreover have "init PyNone c =
      (Inl (Exc TypeError (Some (ascii ''Year must be an integer, got NoneType''))), c)"
    by (simp add: init_def ascii_def)
  moreover have "init (PyFloat NaN) c =
      (Inl (Exc TypeError (Some (ascii ''Year must be an integer, got float''))), c)"
    by (simp add: init_def ascii_def)
  ultimately show ?thesis by blast
qed

lemma not_a_year_refused:
  "non_numeric (ascii ''not_a_year'') \<and>
   init (PyStr (ascii ''not_a_year'')) cls_initial =
     (Inl (Exc TypeError (Some (ascii ''Year must be an integer, got str''))), cls_initial)"
proof -
  have n: "non_numeric (ascii ''not_a_year'')"
    by (simp add: non_numeric_def ascii_def decimal_def decimal_zeros_def int_isspace_def
        str_isspace_def)
  show ?thesis
    using n refused_values [of "ascii ''not_a_year''" cls_initial] by blast
qed

text \<open>
  Claim C6. Every value that is not an integral number is to be refused with the
  \<^verbatim>\<open>TypeError\<close> of the conversion, as the docstring of \<^verbatim>\<open>__init__\<close> says too. The
  code does not do so for floats. The float 2024.5 (\<open>4049 * 2 ^ -1\<close>) is not integral,
  yet the construction succeeds, with the year 2024 and the position 41. An infinite
  float is not integral either, and the \<^verbatim>\<open>OverflowError\<close> that \<^verbatim>\<open>int\<close> raises on it is not
  caught: it reaches the caller in place of the \<^verbatim>\<open>TypeError\<close>.
\<close>

theorem float_year_not_refused:
  "\<not> is_integral (PyFloat (Finite 4049 (- 1))) \<and>
   init (PyFloat (Finite 4049 (- 1))) cls_initial =
     (Inr \<lparr>gregorian_year = 2024, year_in_cycle = 41\<rparr>, \<lparr>TABLE = Some get_year\<rparr>) \<and>
   \<not> is_integral (PyFloat (Infinity False)) \<and>
   init (PyFloat (Infinity False)) cls_initial = (Inl (Exc OverflowError None), cls_initial)"
  by (simp add: init_def float_trunc_def MIN_YEAR_def MAX_YEAR_def cls_initial_def)

end
